theory Spec2Isabelle
  imports Main
begin

section \<open>GatewaySwap: quotes and swap orders through the gateway\<close>

text \<open>
  A shallow embedding of \<^verbatim>\<open>hummingbot/connector/gateway/gateway_swap.py\<close>.
  The class \<^verbatim>\<open>GatewaySwap\<close> has one field of its own, \<^verbatim>\<open>_tx_handler\<close>;
  everything else it does is a call to something outside the file: the base class
  \<^verbatim>\<open>GatewayBase\<close>, the gateway client, the logger, \<^verbatim>\<open>Decimal\<close>, \<^verbatim>\<open>float\<close>
  and \<^verbatim>\<open>str\<close>. Each such call is recorded, in order, as an event of the object's
  effect trace, and what the call returns is read from an environment record.
  A call whose answer may change from one call to the next (the gateway, the order id
  generator) reads it as a function of the trace so far.
\<close>

subsection \<open>Values\<close>

datatype TradeType = BUY | SELL

text \<open>The \<^verbatim>\<open>.name\<close> of an enum member.\<close>

fun trade_type_name :: "TradeType \<Rightarrow> string" where
  "trade_type_name BUY = ''BUY''"
| "trade_type_name SELL = ''SELL''"

text \<open>
  \<^verbatim>\<open>ConnectorType\<close>: the source names the members \<^verbatim>\<open>CLMM\<close> and \<^verbatim>\<open>AMM\<close>; any
  other member is \<open>OtherConnectorType\<close>.
\<close>

datatype ConnectorType = CLMM | AMM | OtherConnectorType string

text \<open>
  Python exceptions, by what the two handlers of the source tell apart:
  \<^verbatim>\<open>asyncio.CancelledError\<close>, the classes derived from \<^verbatim>\<open>Exception\<close>
  (\<open>ValueError\<close> is the one the source raises itself, when unpacking;
  \<open>KeyError\<close> is what a subscript of a dictionary raises), and the
  classes derived from \<^verbatim>\<open>BaseException\<close> only (\<^verbatim>\<open>KeyboardInterrupt\<close>,
  \<^verbatim>\<open>SystemExit\<close>, \<^verbatim>\<open>GeneratorExit\<close>). The strings are the class name and
  \<^verbatim>\<open>str(e)\<close>.
\<close>

datatype py_exc =
    CancelledError
  | ValueError string
  | KeyError string
  | OtherException string string
  | OtherBaseException string string

text \<open>
  \<^verbatim>\<open>isinstance(e, Exception)\<close>. \<^verbatim>\<open>CancelledError\<close> derives from
  \<^verbatim>\<open>BaseException\<close> since Python 3.8; the source handles it before
  \<^verbatim>\<open>except Exception\<close>, so its answer here is never read.
\<close>

fun isinstance_Exception :: "py_exc \<Rightarrow> bool" where
  "isinstance_Exception CancelledError = False"
| "isinstance_Exception (ValueError m) = True"
| "isinstance_Exception (KeyError k) = True"
| "isinstance_Exception (OtherException c m) = True"
| "isinstance_Exception (OtherBaseException c m) = False"

text \<open>A value of a request dictionary: a string, or the result of \<^verbatim>\<open>float(...)\<close>.\<close>

datatype 'f py_value = PyStr string | PyFloat 'f

text \<open>
  A dictionary with string keys, in insertion order. \<open>dict_setitem\<close> is
  \<^verbatim>\<open>d[k] = v\<close>: it overwrites the entry of a key that is present and appends a new
  one otherwise.
\<close>

type_synonym 'a py_dict = "(string \<times> 'a) list"

fun dict_setitem :: "'a py_dict \<Rightarrow> string \<Rightarrow> 'a \<Rightarrow> 'a py_dict" where
  "dict_setitem [] k v = [(k, v)]"
| "dict_setitem ((k', v') # d) k v =
     (if k' = k then (k, v) # d else (k', v') # dict_setitem d k v)"

definition dict_keys :: "'a py_dict \<Rightarrow> string list" where
  "dict_keys d = map fst d"

text \<open>\<^verbatim>\<open>k in d\<close> and \<^verbatim>\<open>d[k]\<close>, which raises \<^verbatim>\<open>KeyError\<close> for a missing key.\<close>

definition dict_contains :: "'a py_dict \<Rightarrow> string \<Rightarrow> bool" where
  "dict_contains d k = (k \<in> set (dict_keys d))"

definition dict_getitem :: "'a py_dict \<Rightarrow> string \<Rightarrow> py_exc + 'a" where
  "dict_getitem d k = (case map_of d k of None \<Rightarrow> Inl (KeyError k) | Some v \<Rightarrow> Inr v)"

text \<open>\<^verbatim>\<open>s.split(sep)\<close> for a separator of one character.\<close>

fun split :: "char \<Rightarrow> string \<Rightarrow> string list" where
  "split sep [] = [[]]"
| "split sep (c # cs) =
     (if c = sep then [] # split sep cs
      else (case split sep cs of
              [] \<Rightarrow> [[c]]
            | w # ws \<Rightarrow> (c # w) # ws))"

text \<open>
  \<^verbatim>\<open>base, quote = parts\<close>: unpacking into two names raises \<^verbatim>\<open>ValueError\<close>
  unless the list has exactly two elements.
\<close>

fun unpack2 :: "string list \<Rightarrow> py_exc + (string \<times> string)" where
  "unpack2 [a, b] = Inr (a, b)"
| "unpack2 [] = Inl (ValueError ''not enough values to unpack (expected 2, got 0)'')"
| "unpack2 [a] = Inl (ValueError ''not enough values to unpack (expected 2, got 1)'')"
| "unpack2 (a # b # c # ps) = Inl (ValueError ''too many values to unpack (expected 2)'')"

text \<open>Whether an evaluation raised.\<close>

fun raises :: "py_exc + 'a \<Rightarrow> bool" where
  "raises (Inl e) = True"
| "raises (Inr v) = False"

subsection \<open>Effects and the object's state\<close>

text \<open>The three log calls of the source, with the values their messages format.\<close>

datatype ('v, 'd) log_record =
    InfoUnableToGetPrice 'v
  | InfoMissingPrice "string list"
  | InfoSwapSubmitted string
  | NetworkErrorQuotePrice string TradeType 'd py_exc

text \<open>The coroutine object \<^verbatim>\<open>self._create_order(side, order_id, trading_pair, amount, price)\<close>.\<close>

datatype 'd coroutine = CreateOrderCoroutine TradeType string string 'd 'd

text \<open>
  The calls that leave the file. \<open>ConnectorRequest\<close> carries the gateway instance, the
  HTTP method, the connector name, the endpoint and the payload; \<open>StartTrackingOrder\<close>
  the order id, trading pair, trade type, price and amount; \<open>ExecuteTransaction\<close> the
  handler, chain, network, connector, method, params and order id;
  \<open>HandleOperationFailure\<close> the order id, trading pair, operation name and exception.
\<close>

datatype ('v, 'd, 'f, 'h) event =
    Logger "('v, 'd) log_record"
  | GetGatewayInstance
  | ConnectorRequest 'h string string string "'f py_value py_dict"
  | CreateMarketOrderId TradeType string
  | SafeEnsureFuture "'d coroutine"
  | StartTrackingOrder string string TradeType 'd 'd
  | ExecuteTransaction 'h string string string string "'f py_value py_dict" string
  | HandleOperationFailure string string string py_exc

record ('v, 'd, 'f, 'h) GatewaySwap =
  tx_handler_attr :: "'h option"
  effects :: "('v, 'd, 'f, 'h) event list"

text \<open>\<^verbatim>\<open>__init__\<close>: the handler is not yet created.\<close>

definition init :: "('v, 'd, 'f, 'h) GatewaySwap" where
  "init = \<lparr>tx_handler_attr = None, effects = []\<rparr>"

text \<open>
  What the file takes from outside. The attributes of the base class are constants;
  \<open>py_str\<close>, \<open>get_connector_type\<close> and the two quantizers are functions of their
  arguments; \<open>Decimal\<close> and \<open>py_float\<close> (\<^verbatim>\<open>float\<close> of a decimal) are too, and may
  raise; the gateway instance, the response to a
  request, the outcome of a transaction (\<open>None\<close>: it returned) and the order id are
  functions of the trace before the call as well.
\<close>

record ('v, 'd, 'f, 'h) env =
  self_network :: string
  self_connector_name :: string
  self_chain :: string
  self_address :: string
  py_str :: "'v \<Rightarrow> string"
  Decimal :: "string \<Rightarrow> py_exc + 'd"
  py_float :: "'d \<Rightarrow> py_exc + 'f"
  get_connector_type :: "string \<Rightarrow> ConnectorType"
  quantize_order_amount :: "string \<Rightarrow> 'd \<Rightarrow> 'd"
  quantize_order_price :: "string \<Rightarrow> 'd \<Rightarrow> 'd"
  gateway_instance :: "('v, 'd, 'f, 'h) event list \<Rightarrow> 'h"
  gateway_response ::
    "('v, 'd, 'f, 'h) event list \<Rightarrow> 'h \<Rightarrow> string \<Rightarrow> string \<Rightarrow> string \<Rightarrow> 'f py_value py_dict
       \<Rightarrow> py_exc + 'v py_dict"
  transaction_outcome ::
    "('v, 'd, 'f, 'h) event list \<Rightarrow> 'h \<Rightarrow> string \<Rightarrow> string \<Rightarrow> string \<Rightarrow> string
       \<Rightarrow> 'f py_value py_dict \<Rightarrow> string \<Rightarrow> py_exc option"
  market_order_id :: "('v, 'd, 'f, 'h) event list \<Rightarrow> TradeType \<Rightarrow> string \<Rightarrow> string"

definition emit ::
  "('v, 'd, 'f, 'h) event \<Rightarrow> ('v, 'd, 'f, 'h) GatewaySwap \<Rightarrow> ('v, 'd, 'f, 'h) GatewaySwap" where
  "emit ev s = s\<lparr>effects := effects s @ [ev]\<rparr>"

subsection \<open>Calls into the base class and the gateway\<close>

definition logger ::
  "('v, 'd) log_record \<Rightarrow> ('v, 'd, 'f, 'h) GatewaySwap \<Rightarrow> ('v, 'd, 'f, 'h) GatewaySwap" where
  "logger r s = emit (Logger r) s"

definition get_gateway_instance ::
  "('v, 'd, 'f, 'h) env \<Rightarrow> ('v, 'd, 'f, 'h) GatewaySwap \<Rightarrow> 'h \<times> ('v, 'd, 'f, 'h) GatewaySwap" where
  "get_gateway_instance E s = (gateway_instance E (effects s), emit GetGatewayInstance s)"

definition connector_request ::
  "('v, 'd, 'f, 'h) env \<Rightarrow> ('v, 'd, 'f, 'h) GatewaySwap \<Rightarrow> 'h \<Rightarrow> string \<Rightarrow> string \<Rightarrow> string
     \<Rightarrow> 'f py_value py_dict \<Rightarrow> (py_exc + 'v py_dict) \<times> ('v, 'd, 'f, 'h) GatewaySwap" where
  "connector_request E s inst meth connector endpoint payload =
     (gateway_response E (effects s) inst meth connector endpoint payload,
      emit (ConnectorRequest inst meth connector endpoint payload) s)"

definition create_market_order_id ::
  "('v, 'd, 'f, 'h) env \<Rightarrow> ('v, 'd, 'f, 'h) GatewaySwap \<Rightarrow> TradeType \<Rightarrow> string
     \<Rightarrow> string \<times> ('v, 'd, 'f, 'h) GatewaySwap" where
  "create_market_order_id E s side trading_pair =
     (market_order_id E (effects s) side trading_pair, emit (CreateMarketOrderId side trading_pair) s)"

definition safe_ensure_future ::
  "'d coroutine \<Rightarrow> ('v, 'd, 'f, 'h) GatewaySwap \<Rightarrow> ('v, 'd, 'f, 'h) GatewaySwap" where
  "safe_ensure_future c s = emit (SafeEnsureFuture c) s"

definition start_tracking_order ::
  "('v, 'd, 'f, 'h) GatewaySwap \<Rightarrow> string \<Rightarrow> string \<Rightarrow> TradeType \<Rightarrow> 'd \<Rightarrow> 'd
     \<Rightarrow> ('v, 'd, 'f, 'h) GatewaySwap" where
  "start_tracking_order s order_id trading_pair trade_type price amount =
     emit (StartTrackingOrder order_id trading_pair trade_type price amount) s"

definition execute_transaction ::
  "('v, 'd, 'f, 'h) env \<Rightarrow> ('v, 'd, 'f, 'h) GatewaySwap \<Rightarrow> 'h \<Rightarrow> string \<Rightarrow> string \<Rightarrow> string
     \<Rightarrow> string \<Rightarrow> 'f py_value py_dict \<Rightarrow> string \<Rightarrow> py_exc option \<times> ('v, 'd, 'f, 'h) GatewaySwap" where
  "execute_transaction E s handler chain network connector meth params order_id =
     (transaction_outcome E (effects s) handler chain network connector meth params order_id,
      emit (ExecuteTransaction handler chain network connector meth params order_id) s)"

definition handle_operation_failure ::
  "('v, 'd, 'f, 'h) GatewaySwap \<Rightarrow> string \<Rightarrow> string \<Rightarrow> string \<Rightarrow> py_exc
     \<Rightarrow> ('v, 'd, 'f, 'h) GatewaySwap" where
  "handle_operation_failure s order_id trading_pair operation_name e =
     emit (HandleOperationFailure order_id trading_pair operation_name e) s"

subsection \<open>The methods of GatewaySwap\<close>

text \<open>The property \<^verbatim>\<open>tx_handler\<close>: created on first use, then read from the field.\<close>

definition tx_handler ::
  "('v, 'd, 'f, 'h) env \<Rightarrow> ('v, 'd, 'f, 'h) GatewaySwap \<Rightarrow> 'h \<times> ('v, 'd, 'f, 'h) GatewaySwap" where
  "tx_handler E s =
     (case tx_handler_attr s of
        None \<Rightarrow>
          (let (h, s1) = get_gateway_instance E s
           in (h, s1\<lparr>tx_handler_attr := Some h\<rparr>))
      | Some h \<Rightarrow> (h, s))"

text \<open>
  \<^verbatim>\<open>parse_price_response\<close>. The parameters \<open>base\<close>, \<open>quote\<close>, \<open>amount\<close>, \<open>side\<close> and
  \<open>process_exception\<close> are not read by the body.
\<close>

definition parse_price_response ::
  "('v, 'd, 'f, 'h) env \<Rightarrow> ('v, 'd, 'f, 'h) GatewaySwap \<Rightarrow> string \<Rightarrow> string \<Rightarrow> 'd \<Rightarrow> TradeType
     \<Rightarrow> 'v py_dict \<Rightarrow> bool \<Rightarrow> (py_exc + 'd option) \<times> ('v, 'd, 'f, 'h) GatewaySwap" where
  "parse_price_response E s base quote amount side price_response process_exception =
     (if \<not> dict_contains price_response ''price'' then
        (if dict_contains price_response ''info'' then
           (case dict_getitem price_response ''info'' of
              Inl e \<Rightarrow> (Inl e, s)
            | Inr info \<Rightarrow> (Inr None, logger (InfoUnableToGetPrice info) s))
         else (Inr None, logger (InfoMissingPrice (dict_keys price_response)) s))
      else
        (case dict_getitem price_response ''price'' of
           Inl e \<Rightarrow> (Inl e, s)
         | Inr p \<Rightarrow>
             (case Decimal E (py_str E p) of
                Inl e \<Rightarrow> (Inl e, s)
              | Inr price \<Rightarrow> (Inr (Some price), s))))"

text \<open>
  The statements of the \<^verbatim>\<open>try\<close> block of \<^verbatim>\<open>get_quote_price\<close>: build the request,
  send it, parse the response. Building the request converts the amount, and the
  slippage when there is one, with \<^verbatim>\<open>float\<close>, which raises for a decimal it cannot
  convert (a signaling NaN); the block then ends before the gateway is asked for.
\<close>

definition quote_request_payload ::
  "('v, 'd, 'f, 'h) env \<Rightarrow> string \<Rightarrow> string \<Rightarrow> TradeType \<Rightarrow> 'd \<Rightarrow> 'd option \<Rightarrow> string option
     \<Rightarrow> py_exc + 'f py_value py_dict" where
  "quote_request_payload E base quote side amount slippage_pct pool_address =
     (let connector_type = get_connector_type E (self_connector_name E)
      in (case py_float E amount of
            Inl e \<Rightarrow> Inl e
          | Inr amount_f \<Rightarrow>
              (let request_payload =
                     [(''network'', PyStr (self_network E)),
                      (''baseToken'', PyStr base),
                      (''quoteToken'', PyStr quote),
                      (''amount'', PyFloat amount_f),
                      (''side'', PyStr (trade_type_name side))]
               in (case (case slippage_pct of
                           Some pct \<Rightarrow>
                             (case py_float E pct of
                                Inl e \<Rightarrow> Inl e
                              | Inr pct_f \<Rightarrow>
                                  Inr (dict_setitem request_payload ''slippagePct'' (PyFloat pct_f)))
                         | None \<Rightarrow> Inr request_payload) of
                     Inl e \<Rightarrow> Inl e
                   | Inr request_payload \<Rightarrow>
                       Inr (case pool_address of
                              Some addr \<Rightarrow>
                                (if connector_type \<in> {CLMM, AMM}
                                 then dict_setitem request_payload ''poolAddress'' (PyStr addr)
                                 else request_payload)
                            | None \<Rightarrow> request_payload)))))"

definition get_quote_price_try ::
  "('v, 'd, 'f, 'h) env \<Rightarrow> ('v, 'd, 'f, 'h) GatewaySwap \<Rightarrow> string \<Rightarrow> string \<Rightarrow> TradeType \<Rightarrow> 'd
     \<Rightarrow> 'd option \<Rightarrow> string option \<Rightarrow> (py_exc + 'd option) \<times> ('v, 'd, 'f, 'h) GatewaySwap" where
  "get_quote_price_try E s base quote side amount slippage_pct pool_address =
     (case quote_request_payload E base quote side amount slippage_pct pool_address of
        Inl e \<Rightarrow> (Inl e, s)
      | Inr request_payload \<Rightarrow>
          (let (inst, s1) = get_gateway_instance E s;
               (resp, s2) = connector_request E s1 inst ''get'' (self_connector_name E) ''quote-swap''
                              request_payload
           in (case resp of
                 Inl e \<Rightarrow> (Inl e, s2)
               | Inr r \<Rightarrow> parse_price_response E s2 base quote amount side r True)))"

text \<open>
  \<^verbatim>\<open>get_quote_price\<close>: the body of the method, as written. The unpacking of the split
  stands before the \<^verbatim>\<open>try\<close>; the first handler re-raises \<^verbatim>\<open>CancelledError\<close>, the
  second logs an \<^verbatim>\<open>Exception\<close> and the method then ends without a \<^verbatim>\<open>return\<close>, which
  gives \<^verbatim>\<open>None\<close>; an exception neither handler matches leaves the method.

  The method is decorated with \<^verbatim>\<open>async_ttl_cache(ttl=5, maxsize=10)\<close>, which is
  defined in \<^verbatim>\<open>hummingbot.core.utils\<close> and not in this file. What follows is one
  execution of the body: what a caller gets when the wrapper runs the method, and
  not what the wrapper may answer from its cache without running it.
\<close>

definition get_quote_price ::
  "('v, 'd, 'f, 'h) env \<Rightarrow> ('v, 'd, 'f, 'h) GatewaySwap \<Rightarrow> string \<Rightarrow> bool \<Rightarrow> 'd \<Rightarrow> 'd option
     \<Rightarrow> string option \<Rightarrow> (py_exc + 'd option) \<times> ('v, 'd, 'f, 'h) GatewaySwap" where
  "get_quote_price E s trading_pair is_buy amount slippage_pct pool_address =
     (case unpack2 (split CHR ''-'' trading_pair) of
        Inl e \<Rightarrow> (Inl e, s)
      | Inr (base, quote) \<Rightarrow>
          (let side = (if is_buy then BUY else SELL)
           in (case get_quote_price_try E s base quote side amount slippage_pct pool_address of
                 (Inr price, s') \<Rightarrow> (Inr price, s')
               | (Inl e, s') \<Rightarrow>
                   (if e = CancelledError then (Inl e, s')
                    else if isinstance_Exception e then
                      (Inr None, logger (NetworkErrorQuotePrice trading_pair side amount e) s')
                    else (Inl e, s')))))"

definition get_order_price ::
  "('v, 'd, 'f, 'h) env \<Rightarrow> ('v, 'd, 'f, 'h) GatewaySwap \<Rightarrow> string \<Rightarrow> bool \<Rightarrow> 'd
     \<Rightarrow> (py_exc + 'd option) \<times> ('v, 'd, 'f, 'h) GatewaySwap" where
  "get_order_price E s trading_pair is_buy amount =
     get_quote_price E s trading_pair is_buy amount None None"

text \<open>
  \<^verbatim>\<open>place_order\<close> asks the base class for an order id and hands the coroutine of
  \<^verbatim>\<open>_create_order\<close> to \<^verbatim>\<open>safe_ensure_future\<close>; it does not run it.
\<close>

definition place_order ::
  "('v, 'd, 'f, 'h) env \<Rightarrow> ('v, 'd, 'f, 'h) GatewaySwap \<Rightarrow> bool \<Rightarrow> string \<Rightarrow> 'd \<Rightarrow> 'd
     \<Rightarrow> string \<times> ('v, 'd, 'f, 'h) GatewaySwap" where
  "place_order E s is_buy trading_pair amount price =
     (let side = (if is_buy then BUY else SELL);
          (order_id, s1) = create_market_order_id E s side trading_pair;
          s2 = safe_ensure_future (CreateOrderCoroutine side order_id trading_pair amount price) s1
      in (order_id, s2))"

definition buy ::
  "('v, 'd, 'f, 'h) env \<Rightarrow> ('v, 'd, 'f, 'h) GatewaySwap \<Rightarrow> string \<Rightarrow> 'd \<Rightarrow> 'o \<Rightarrow> 'd
     \<Rightarrow> string \<times> ('v, 'd, 'f, 'h) GatewaySwap" where
  "buy E s trading_pair amount order_type price = place_order E s True trading_pair amount price"

definition sell ::
  "('v, 'd, 'f, 'h) env \<Rightarrow> ('v, 'd, 'f, 'h) GatewaySwap \<Rightarrow> string \<Rightarrow> 'd \<Rightarrow> 'o \<Rightarrow> 'd
     \<Rightarrow> string \<times> ('v, 'd, 'f, 'h) GatewaySwap" where
  "sell E s trading_pair amount order_type price = place_order E s False trading_pair amount price"

text \<open>
  \<^verbatim>\<open>_create_order\<close>. The statements of its \<^verbatim>\<open>try\<close> block: Python evaluates
  \<^verbatim>\<open>self.tx_handler\<close>, then the arguments of \<^verbatim>\<open>execute_transaction\<close>, among them
  the parameters with \<^verbatim>\<open>float(amount)\<close>, which may raise, then makes the call, and
  logs when the call has returned. The block gives \<open>None\<close> when it ends normally and
  the exception otherwise.
\<close>

definition swap_params ::
  "('v, 'd, 'f, 'h) env \<Rightarrow> string \<Rightarrow> string \<Rightarrow> 'd \<Rightarrow> TradeType \<Rightarrow> py_exc + 'f py_value py_dict" where
  "swap_params E base quote amount trade_type =
     (case py_float E amount of
        Inl e \<Rightarrow> Inl e
      | Inr amount_f \<Rightarrow>
          Inr [(''walletAddress'', PyStr (self_address E)),
               (''baseToken'', PyStr base),
               (''quoteToken'', PyStr quote),
               (''amount'', PyFloat amount_f),
               (''side'', PyStr (trade_type_name trade_type))])"

definition create_order_try ::
  "('v, 'd, 'f, 'h) env \<Rightarrow> ('v, 'd, 'f, 'h) GatewaySwap \<Rightarrow> TradeType \<Rightarrow> string \<Rightarrow> string \<Rightarrow> string
     \<Rightarrow> 'd \<Rightarrow> py_exc option \<times> ('v, 'd, 'f, 'h) GatewaySwap" where
  "create_order_try E s trade_type order_id base quote amount =
     (let (handler, s2) = tx_handler E s
      in (case swap_params E base quote amount trade_type of
            Inl e \<Rightarrow> (Some e, s2)
          | Inr params \<Rightarrow>
              (let (outcome, s3) =
                     execute_transaction E s2 handler (self_chain E) (self_network E)
                       (self_connector_name E) ''execute-swap'' params order_id
               in (case outcome of
                     None \<Rightarrow> (None, logger (InfoSwapSubmitted order_id) s3)
                   | Some e \<Rightarrow> (Some e, s3)))))"

text \<open>
  The method: quantize, unpack the pair, start tracking, run the block. The first
  handler re-raises \<^verbatim>\<open>CancelledError\<close>, the second passes an \<^verbatim>\<open>Exception\<close> to
  \<^verbatim>\<open>_handle_operation_failure\<close>; an exception neither handler matches leaves the
  method. The result \<open>Inr ()\<close> is the method ending normally.
\<close>

definition create_order ::
  "('v, 'd, 'f, 'h) env \<Rightarrow> ('v, 'd, 'f, 'h) GatewaySwap \<Rightarrow> TradeType \<Rightarrow> string \<Rightarrow> string \<Rightarrow> 'd \<Rightarrow> 'd
     \<Rightarrow> (py_exc + unit) \<times> ('v, 'd, 'f, 'h) GatewaySwap" where
  "create_order E s trade_type order_id trading_pair amount0 price0 =
     (let amount = quantize_order_amount E trading_pair amount0;
          price = quantize_order_price E trading_pair price0
      in (case unpack2 (split CHR ''-'' trading_pair) of
            Inl e \<Rightarrow> (Inl e, s)
          | Inr (base, quote) \<Rightarrow>
              (let s1 = start_tracking_order s order_id trading_pair trade_type price amount
               in (case create_order_try E s1 trade_type order_id base quote amount of
                     (None, s') \<Rightarrow> (Inr (), s')
                   | (Some e, s') \<Rightarrow>
                       (if e = CancelledError then (Inl e, s')
                        else if isinstance_Exception e then
                          (Inr (),
                           handle_operation_failure s' order_id trading_pair
                             (''submitting '' @ trade_type_name trade_type @ '' swap order'') e)
                        else (Inl e, s'))))))"

subsection \<open>Sequences of method calls\<close>

text \<open>
  A call of one of the methods the class defines, with its arguments, and the state it
  leaves. \<^verbatim>\<open>__init__\<close> is not among them: it runs once, when the object is made.
\<close>

datatype ('v, 'd, 'o) operation =
    Call_tx_handler
  | Call_get_quote_price string bool 'd "'d option" "string option"
  | Call_get_order_price string bool 'd
  | Call_parse_price_response string string 'd TradeType "'v py_dict" bool
  | Call_buy string 'd 'o 'd
  | Call_sell string 'd 'o 'd
  | Call_place_order bool string 'd 'd
  | Call_create_order TradeType string string 'd 'd

fun perform ::
  "('v, 'd, 'f, 'h) env \<Rightarrow> ('v, 'd, 'f, 'h) GatewaySwap \<Rightarrow> ('v, 'd, 'o) operation
     \<Rightarrow> ('v, 'd, 'f, 'h) GatewaySwap" where
  "perform E s Call_tx_handler = snd (tx_handler E s)"
| "perform E s (Call_get_quote_price trading_pair is_buy amount slippage_pct pool_address) =
     snd (get_quote_price E s trading_pair is_buy amount slippage_pct pool_address)"
| "perform E s (Call_get_order_price trading_pair is_buy amount) =
     snd (get_order_price E s trading_pair is_buy amount)"
| "perform E s (Call_parse_price_response base quote amount side price_response process_exception) =
     snd (parse_price_response E s base quote amount side price_response process_exception)"
| "perform E s (Call_buy trading_pair amount order_type price) =
     snd (buy E s trading_pair amount order_type price)"
| "perform E s (Call_sell trading_pair amount order_type price) =
     snd (sell E s trading_pair amount order_type price)"
| "perform E s (Call_place_order is_buy trading_pair amount price) =
     snd (place_order E s is_buy trading_pair amount price)"
| "perform E s (Call_create_order trade_type order_id trading_pair amount price) =
     snd (create_order E s trade_type order_id trading_pair amount price)"

fun perform_all ::
  "('v, 'd, 'f, 'h) env \<Rightarrow> ('v, 'd, 'f, 'h) GatewaySwap \<Rightarrow> ('v, 'd, 'o) operation list
     \<Rightarrow> ('v, 'd, 'f, 'h) GatewaySwap" where
  "perform_all E s [] = s"
| "perform_all E s (c # cs) = perform_all E (perform E s c) cs"

subsection \<open>Reading the trace\<close>

text \<open>The requests sent to the gateway, the transactions submitted, the orders tracked.\<close>

fun connector_requests ::
  "('v, 'd, 'f, 'h) event list \<Rightarrow> ('h \<times> string \<times> string \<times> string \<times> 'f py_value py_dict) list" where
  "connector_requests [] = []"
| "connector_requests (ConnectorRequest inst meth connector endpoint payload # evs) =
     (inst, meth, connector, endpoint, payload) # connector_requests evs"
| "connector_requests (ev # evs) = connector_requests evs"

fun submitted_transactions ::
  "('v, 'd, 'f, 'h) event list \<Rightarrow> (string \<times> 'f py_value py_dict \<times> string) list" where
  "submitted_transactions [] = []"
| "submitted_transactions (ExecuteTransaction handler chain network connector meth params order_id # evs) =
     (meth, params, order_id) # submitted_transactions evs"
| "submitted_transactions (ev # evs) = submitted_transactions evs"

fun is_log :: "('v, 'd, 'f, 'h) event \<Rightarrow> bool" where
  "is_log (Logger r) = True"
| "is_log ev = False"

subsection \<open>A concrete environment\<close>

text \<open>
  An environment to run the methods in: response values and decimals are strings,
  \<open>Decimal\<close> accepts digits and points, \<^verbatim>\<open>float\<close> raises for the signaling NaN,
  the quantizers cut to four and six characters, and every call of \<^verbatim>\<open>_get_gateway_instance\<close> answers with a new object (the length
  of the trace so far).
\<close>

definition example_Decimal :: "string \<Rightarrow> py_exc + string" where
  "example_Decimal str =
     (if str \<noteq> [] \<and> list_all (\<lambda>c. c \<in> set ''0123456789.'') str then Inr str
      else Inl (OtherException ''InvalidOperation'' str))"

definition example_env :: "(string, string, string, nat) env" where
  "example_env =
     \<lparr>self_network = ''mainnet'',
      self_connector_name = ''uniswap/amm'',
      self_chain = ''ethereum'',
      self_address = ''0xA1'',
      py_str = (\<lambda>v. v),
      Decimal = example_Decimal,
      py_float =
        (\<lambda>d. if d = ''sNaN'' then Inl (ValueError ''cannot convert signaling NaN to float'')
             else Inr d),
      get_connector_type = (\<lambda>n. if n = ''uniswap/amm'' then AMM else OtherConnectorType n),
      quantize_order_amount = (\<lambda>trading_pair d. take 4 d),
      quantize_order_price = (\<lambda>trading_pair d. take 6 d),
      gateway_instance = (\<lambda>tr. length tr),
      gateway_response = (\<lambda>tr inst meth connector endpoint payload. Inr [(''price'', ''1.25'')]),
      transaction_outcome = (\<lambda>tr handler chain network connector meth params order_id. None),
      market_order_id = (\<lambda>tr side trading_pair. trade_type_name side @ ''-'' @ trading_pair)\<rparr>"

text \<open>The same environment with a gateway whose request, or whose transaction, raises \<open>e\<close>.\<close>

definition request_raising :: "py_exc \<Rightarrow> (string, string, string, nat) env" where
  "request_raising e =
     example_env\<lparr>gateway_response := (\<lambda>tr inst meth connector endpoint payload. Inl e)\<rparr>"

definition transaction_raising :: "py_exc \<Rightarrow> (string, string, string, nat) env" where
  "transaction_raising e =
     example_env\<lparr>transaction_outcome :=
       (\<lambda>tr handler chain network connector meth params order_id. Some e)\<rparr>"

section \<open>Properties\<close>

subsection \<open>Splitting and dictionaries\<close>

lemma split_no_sep: "sep \<notin> set cs \<Longrightarrow> split sep cs = [cs]"
  by (induction cs) auto

lemma split_not_Nil: "split sep cs \<noteq> []"
  by (induction cs) (auto split: list.splits)

lemma split_append_sep:
  "sep \<notin> set bs \<Longrightarrow> split sep (bs @ sep # cs) = bs # split sep cs"
  by (induction bs) (auto split: list.splits)

lemma split_base_quote:
  "sep \<notin> set base \<Longrightarrow> sep \<notin> set quote \<Longrightarrow> split sep (base @ sep # quote) = [base, quote]"
  by (simp add: split_append_sep split_no_sep)

lemma length_split: "length (split sep cs) = Suc (length (filter (\<lambda>c. c = sep) cs))"
  by (induction cs) (auto split: list.splits simp: split_not_Nil)

lemma unpack2_Inr_iff: "unpack2 ps = Inr (a, b) \<longleftrightarrow> ps = [a, b]"
  by (cases ps rule: unpack2.cases) auto

lemma unpack2_length: "length ps \<noteq> 2 \<Longrightarrow> \<exists>m. unpack2 ps = Inl (ValueError m)"
  by (cases ps rule: unpack2.cases) auto

lemma unpack2_length2: "length ps = 2 \<Longrightarrow> \<exists>a b. unpack2 ps = Inr (a, b)"
  by (cases ps rule: unpack2.cases) auto

lemma dict_getitem_contains:
  "dict_contains d k \<Longrightarrow> \<exists>v. dict_getitem d k = Inr v"
  unfolding dict_contains_def dict_keys_def dict_getitem_def
  by (cases "map_of d k") (auto simp: map_of_eq_None_iff)

lemma dict_getitem_absent:
  "\<not> dict_contains d k \<Longrightarrow> dict_getitem d k = Inl (KeyError k)"
proof -
  assume "\<not> dict_contains d k"
  then have "map_of d k = None"
    by (simp add: dict_contains_def dict_keys_def map_of_eq_None_iff)
  then show ?thesis by (simp add: dict_getitem_def)
qed

lemma dict_contains_iff: "dict_contains d k \<longleftrightarrow> (\<exists>v. dict_getitem d k = Inr v)"
  using dict_getitem_contains dict_getitem_absent by fastforce

subsection \<open>Parsing the price response\<close>

lemma parse_result:
  "fst (parse_price_response E s base quote amount side r pe) =
     (case dict_getitem r ''price'' of
        Inl e \<Rightarrow> Inr None
      | Inr p \<Rightarrow> (case Decimal E (py_str E p) of Inl e \<Rightarrow> Inl e | Inr d \<Rightarrow> Inr (Some d)))"
proof (cases "dict_contains r ''price''")
  case True
  then obtain p where "dict_getitem r ''price'' = Inr p"
    using dict_getitem_contains by blast
  with True show ?thesis
    by (simp add: parse_price_response_def split: sum.splits)
next
  case False
  then have "dict_getitem r ''price'' = Inl (KeyError ''price'')"
    by (rule dict_getitem_absent)
  with False show ?thesis
    using dict_getitem_contains [of r "''info''"]
    by (auto simp: parse_price_response_def split: sum.splits)
qed

lemma parse_state:
  "tx_handler_attr (snd (parse_price_response E s base quote amount side r pe)) = tx_handler_attr s"
  "\<exists>evs. effects (snd (parse_price_response E s base quote amount side r pe)) = effects s @ evs
          \<and> list_all is_log evs"
  by (auto simp: parse_price_response_def logger_def emit_def split: sum.splits)

text \<open>
  Claim C1. For every response dictionary passed to \<^verbatim>\<open>parse_price_response\<close>: if the
  key \<^verbatim>\<open>"price"\<close> is present, the result is that of evaluating
  \<^verbatim>\<open>Decimal(str(response["price"]))\<close> (the decimal, or the exception the conversion
  raises); if it is absent, the result is \<^verbatim>\<open>None\<close>. Two calls on responses with the
  same \<^verbatim>\<open>"price"\<close> entry give the same result, whatever the other keys, the other
  arguments and the state are; the call leaves \<^verbatim>\<open>_tx_handler\<close> alone and adds only
  log records to the trace.
\<close>

theorem parse_price_response_price:
  "(dict_contains r ''price'' \<longrightarrow>
      (\<exists>p. dict_getitem r ''price'' = Inr p \<and>
           fst (parse_price_response E s base quote amount side r pe) =
             (case Decimal E (py_str E p) of Inl e \<Rightarrow> Inl e | Inr d \<Rightarrow> Inr (Some d))))
   \<and> (\<not> dict_contains r ''price'' \<longrightarrow>
        fst (parse_price_response E s base quote amount side r pe) = Inr None)
   \<and> (dict_getitem r ''price'' = dict_getitem r' ''price'' \<longrightarrow>
        fst (parse_price_response E s base quote amount side r pe) =
        fst (parse_price_response E s' base' quote' amount' side' r' pe'))
   \<and> tx_handler_attr (snd (parse_price_response E s base quote amount side r pe)) = tx_handler_attr s
   \<and> (\<exists>evs. effects (snd (parse_price_response E s base quote amount side r pe)) = effects s @ evs
             \<and> list_all is_log evs)"
proof -
  have a: "dict_contains r ''price'' \<longrightarrow>
      (\<exists>p. dict_getitem r ''price'' = Inr p \<and>
           fst (parse_price_response E s base quote amount side r pe) =
             (case Decimal E (py_str E p) of Inl e \<Rightarrow> Inl e | Inr d \<Rightarrow> Inr (Some d)))"
    using dict_getitem_contains [of r "''price''"] by (auto simp: parse_result)
  have b: "\<not> dict_contains r ''price'' \<longrightarrow>
        fst (parse_price_response E s base quote amount side r pe) = Inr None"
    using dict_getitem_absent [of r "''price''"] by (auto simp: parse_result)
  have c: "dict_getitem r ''price'' = dict_getitem r' ''price'' \<longrightarrow>
        fst (parse_price_response E s base quote amount side r pe) =
        fst (parse_price_response E s' base' quote' amount' side' r' pe')"
    by (simp add: parse_result)
  from a b c parse_state [of E s base quote amount side r pe] show ?thesis by blast
qed

text \<open>The three cases at concrete responses.\<close>

theorem parse_price_response_price_witness:
  "dict_contains [(''info'', ''slow''), (''price'', ''1.25'')] ''price''
   \<and> fst (parse_price_response example_env init ''ETH'' ''USDC'' ''1.0'' BUY
            [(''info'', ''slow''), (''price'', ''1.25'')] True) = Inr (Some ''1.25'')
   \<and> \<not> dict_contains [(''info'', ''slow'')] ''price''
   \<and> fst (parse_price_response example_env init ''ETH'' ''USDC'' ''1.0'' BUY
            [(''info'', ''slow'')] True) = Inr None
   \<and> dict_getitem [(''info'', ''slow''), (''price'', ''1.25'')] ''price'' =
       dict_getitem [(''price'', ''1.25''), (''gas'', ''7'')] ''price''
   \<and> fst (parse_price_response example_env init ''ETH'' ''USDC'' ''1.0'' BUY
            [(''info'', ''slow''), (''price'', ''1.25'')] True) =
       fst (parse_price_response example_env init ''BTC'' ''DAI'' ''2.0'' SELL
            [(''price'', ''1.25''), (''gas'', ''7'')] False)"
  using parse_price_response_price [of "[(''info'', ''slow''), (''price'', ''1.25'')]"
      example_env init "''ETH''" "''USDC''" "''1.0''" BUY True
      "[(''price'', ''1.25''), (''gas'', ''7'')]" init "''BTC''" "''DAI''" "''2.0''" SELL False]
    parse_price_response_price [of "[(''info'', ''slow'')]"
      example_env init "''ETH''" "''USDC''" "''1.0''" BUY True]
  by (simp add: dict_contains_def dict_keys_def dict_getitem_def parse_price_response_def
      logger_def emit_def example_env_def example_Decimal_def)

subsection \<open>The trace of a quote\<close>

lemma effects_emit: "effects (emit ev s) = effects s @ [ev]"
  by (simp add: emit_def)

lemma tx_handler_attr_emit: "tx_handler_attr (emit ev s) = tx_handler_attr s"
  by (simp add: emit_def)

lemma connector_requests_append:
  "connector_requests (xs @ ys) = connector_requests xs @ connector_requests ys"
  by (induction xs rule: connector_requests.induct) auto

lemma connector_requests_logs: "list_all is_log evs \<Longrightarrow> connector_requests evs = []"
  by (induction evs rule: connector_requests.induct) auto

lemma parse_raises_state:
  "fst (parse_price_response E s base quote amount side r pe) = Inl e \<Longrightarrow>
   snd (parse_price_response E s base quote amount side r pe) = s"
  by (auto simp: parse_price_response_def split: sum.splits if_splits)

text \<open>Building the payload: when it raises, and what it is when it does not.\<close>

lemma quote_request_payload_amount_raises:
  "py_float E amount = Inl e \<Longrightarrow>
   quote_request_payload E base quote side amount slippage_pct pool_address = Inl e"
  by (simp add: quote_request_payload_def)

lemma quote_request_payload_slippage_raises:
  "py_float E amount = Inr amount_f \<Longrightarrow> slippage_pct = Some pct \<Longrightarrow> py_float E pct = Inl e \<Longrightarrow>
   quote_request_payload E base quote side amount slippage_pct pool_address = Inl e"
  by (simp add: quote_request_payload_def)

lemma quote_request_payload_explicit:
  assumes "py_float E amount = Inr amount_f"
      and "case slippage_pct of None \<Rightarrow> True | Some pct \<Rightarrow> py_float E pct = Inr slippage_f"
  shows "quote_request_payload E base quote side amount slippage_pct pool_address =
     Inr ([(''network'', PyStr (self_network E)),
           (''baseToken'', PyStr base),
           (''quoteToken'', PyStr quote),
           (''amount'', PyFloat amount_f),
           (''side'', PyStr (trade_type_name side))] @
          (case slippage_pct of
             None \<Rightarrow> []
           | Some pct \<Rightarrow> [(''slippagePct'', PyFloat slippage_f)]) @
          (case pool_address of
             None \<Rightarrow> []
           | Some addr \<Rightarrow>
               if get_connector_type E (self_connector_name E) \<in> {CLMM, AMM}
               then [(''poolAddress'', PyStr addr)] else []))"
  using assms by (simp add: quote_request_payload_def split: option.splits)

text \<open>The \<^verbatim>\<open>try\<close> block, with the state in which the response arrives written out.\<close>

lemma get_quote_price_try_no_payload:
  "quote_request_payload E base quote side amount slippage_pct pool_address = Inl e \<Longrightarrow>
   get_quote_price_try E s base quote side amount slippage_pct pool_address = (Inl e, s)"
  by (simp add: get_quote_price_try_def)

lemma get_quote_price_try_unfold:
  "quote_request_payload E base quote side amount slippage_pct pool_address = Inr payload \<Longrightarrow>
   get_quote_price_try E s base quote side amount slippage_pct pool_address =
     (case gateway_response E (effects s @ [GetGatewayInstance]) (gateway_instance E (effects s))
             ''get'' (self_connector_name E) ''quote-swap'' payload of
        Inl e \<Rightarrow>
          (Inl e,
           emit (ConnectorRequest (gateway_instance E (effects s)) ''get'' (self_connector_name E)
                   ''quote-swap'' payload)
             (emit GetGatewayInstance s))
      | Inr r \<Rightarrow>
          parse_price_response E
            (emit (ConnectorRequest (gateway_instance E (effects s)) ''get'' (self_connector_name E)
                     ''quote-swap'' payload)
               (emit GetGatewayInstance s))
            base quote amount side r True)"
  by (simp add: get_quote_price_try_def get_gateway_instance_def connector_request_def effects_emit
      Let_def)

lemma get_quote_price_try_effects:
  assumes "quote_request_payload E base quote side amount slippage_pct pool_address = Inr payload"
  shows "\<exists>evs. effects (snd (get_quote_price_try E s base quote side amount slippage_pct pool_address)) =
           effects s @
           [GetGatewayInstance,
            ConnectorRequest (gateway_instance E (effects s)) ''get'' (self_connector_name E)
              ''quote-swap'' payload] @ evs
         \<and> list_all is_log evs"
proof (cases "gateway_response E (effects s @ [GetGatewayInstance]) (gateway_instance E (effects s))
                ''get'' (self_connector_name E) ''quote-swap'' payload")
  case (Inl e)
  then show ?thesis
    by (simp add: get_quote_price_try_unfold [OF assms] effects_emit)
next
  case (Inr r)
  let ?s2 = "emit (ConnectorRequest (gateway_instance E (effects s)) ''get'' (self_connector_name E)
                     ''quote-swap'' payload)
               (emit GetGatewayInstance s)"
  obtain evs where "effects (snd (parse_price_response E ?s2 base quote amount side r True)) =
      effects ?s2 @ evs" and "list_all is_log evs"
    using parse_state(2) [of E ?s2 base quote amount side r True] by blast
  with Inr show ?thesis
    by (simp add: get_quote_price_try_unfold [OF assms] effects_emit)
qed

lemma get_quote_price_try_attr:
  "tx_handler_attr (snd (get_quote_price_try E s base quote side amount slippage_pct pool_address)) =
   tx_handler_attr s"
proof (cases "quote_request_payload E base quote side amount slippage_pct pool_address")
  case (Inl e)
  then show ?thesis by (simp add: get_quote_price_try_no_payload)
next
  case (Inr payload)
  then show ?thesis
    by (simp add: get_quote_price_try_unfold parse_state(1) tx_handler_attr_emit split: sum.splits)
qed

text \<open>The handlers add at most a log record to what the block has done.\<close>

lemma get_quote_price_after_try:
  assumes "unpack2 (split CHR ''-'' trading_pair) = Inr (base, quote)"
  shows "\<exists>evs. effects (snd (get_quote_price E s trading_pair is_buy amount slippage_pct pool_address)) =
           effects (snd (get_quote_price_try E s base quote (if is_buy then BUY else SELL) amount
                           slippage_pct pool_address)) @ evs
         \<and> list_all is_log evs"
    and "tx_handler_attr (snd (get_quote_price E s trading_pair is_buy amount slippage_pct pool_address)) =
         tx_handler_attr (snd (get_quote_price_try E s base quote (if is_buy then BUY else SELL) amount
                           slippage_pct pool_address))"
proof -
  obtain res s' where body: "get_quote_price_try E s base quote (if is_buy then BUY else SELL) amount
      slippage_pct pool_address = (res, s')"
    by (cases "get_quote_price_try E s base quote (if is_buy then BUY else SELL) amount
      slippage_pct pool_address")
  show "\<exists>evs. effects (snd (get_quote_price E s trading_pair is_buy amount slippage_pct pool_address)) =
           effects (snd (get_quote_price_try E s base quote (if is_buy then BUY else SELL) amount
                           slippage_pct pool_address)) @ evs
         \<and> list_all is_log evs"
    using assms body
    by (cases res) (simp_all add: get_quote_price_def logger_def effects_emit)
  show "tx_handler_attr (snd (get_quote_price E s trading_pair is_buy amount slippage_pct pool_address)) =
         tx_handler_attr (snd (get_quote_price_try E s base quote (if is_buy then BUY else SELL) amount
                           slippage_pct pool_address))"
    using assms body
    by (cases res) (simp_all add: get_quote_price_def logger_def tx_handler_attr_emit)
qed

lemma get_quote_price_effects:
  assumes "unpack2 (split CHR ''-'' trading_pair) = Inr (base, quote)"
      and "quote_request_payload E base quote (if is_buy then BUY else SELL) amount
             slippage_pct pool_address = Inr payload"
  shows "\<exists>evs. effects (snd (get_quote_price E s trading_pair is_buy amount slippage_pct pool_address)) =
           effects s @
           [GetGatewayInstance,
            ConnectorRequest (gateway_instance E (effects s)) ''get'' (self_connector_name E)
              ''quote-swap'' payload] @ evs
         \<and> list_all is_log evs"
proof -
  obtain evs1 where 1: "effects (snd (get_quote_price_try E s base quote (if is_buy then BUY else SELL)
        amount slippage_pct pool_address)) =
      effects s @
           [GetGatewayInstance,
            ConnectorRequest (gateway_instance E (effects s)) ''get'' (self_connector_name E)
              ''quote-swap'' payload] @ evs1" and l1: "list_all is_log evs1"
    using get_quote_price_try_effects [OF assms(2), of s] by blast
  obtain evs2 where 2: "effects (snd (get_quote_price E s trading_pair is_buy amount slippage_pct
        pool_address)) =
      effects (snd (get_quote_price_try E s base quote (if is_buy then BUY else SELL) amount
                           slippage_pct pool_address)) @ evs2" and l2: "list_all is_log evs2"
    using get_quote_price_after_try(1) [OF assms(1), of E s is_buy amount slippage_pct pool_address]
    by blast
  have "effects (snd (get_quote_price E s trading_pair is_buy amount slippage_pct pool_address)) =
           effects s @
           [GetGatewayInstance,
            ConnectorRequest (gateway_instance E (effects s)) ''get'' (self_connector_name E)
              ''quote-swap'' payload] @ (evs1 @ evs2)"
    unfolding 2 1 by simp
  moreover have "list_all is_log (evs1 @ evs2)"
    using l1 l2 by simp
  ultimately show ?thesis by blast
qed

lemma get_quote_price_effects_no_payload:
  assumes "unpack2 (split CHR ''-'' trading_pair) = Inr (base, quote)"
      and "quote_request_payload E base quote (if is_buy then BUY else SELL) amount
             slippage_pct pool_address = Inl e"
  shows "\<exists>evs. effects (snd (get_quote_price E s trading_pair is_buy amount slippage_pct pool_address)) =
           effects s @ evs \<and> list_all is_log evs"
  using get_quote_price_after_try(1) [OF assms(1), of E s is_buy amount slippage_pct pool_address]
  by (simp add: get_quote_price_try_no_payload [OF assms(2)])

lemma get_quote_price_attr:
  "tx_handler_attr (snd (get_quote_price E s trading_pair is_buy amount slippage_pct pool_address)) =
   tx_handler_attr s"
proof (cases "unpack2 (split CHR ''-'' trading_pair)")
  case (Inl e)
  then show ?thesis by (simp add: get_quote_price_def)
next
  case (Inr bq)
  obtain base quote where bq: "unpack2 (split CHR ''-'' trading_pair) = Inr (base, quote)"
    using Inr by (cases bq) simp
  show ?thesis
    by (simp add: get_quote_price_after_try(2) [OF bq] get_quote_price_try_attr)
qed

text \<open>
  Claim C2, as amended. Take a trading pair \<open>base-quote\<close> (neither part holds a
  \<^verbatim>\<open>"-"\<close>), an amount and an \<open>is_buy\<close> flag, and one execution of the body of
  \<^verbatim>\<open>get_quote_price\<close>. If \<^verbatim>\<open>float(amount)\<close>, and \<^verbatim>\<open>float(slippage_pct)\<close> when
  \<open>slippage_pct\<close> is not \<^verbatim>\<open>None\<close>, do not raise, it sends one request, a \<^verbatim>\<open>get\<close> to
  the endpoint \<^verbatim>\<open>"quote-swap"\<close> of the connector, and its payload is exactly:
  \<open>network\<close>, \<open>baseToken\<close> the part before the \<^verbatim>\<open>"-"\<close>, \<open>quoteToken\<close> the part after
  it, \<open>amount\<close> the float of the amount, \<open>side\<close> \<^verbatim>\<open>"BUY"\<close> when \<open>is_buy\<close> and
  \<^verbatim>\<open>"SELL"\<close> otherwise; then \<open>slippagePct\<close> if and only if \<open>slippage_pct\<close> is not
  \<^verbatim>\<open>None\<close>; then \<open>poolAddress\<close> if and only if \<open>pool_address\<close> is not \<^verbatim>\<open>None\<close> and the
  connector type is CLMM or AMM. If one of the two conversions raises, no request is
  sent, and when what it raises is an instance of \<^verbatim>\<open>Exception\<close> the error is logged
  and the result is \<^verbatim>\<open>None\<close>.
\<close>

theorem get_quote_price_request_fields:
  assumes "CHR ''-'' \<notin> set base" and "CHR ''-'' \<notin> set quote"
  shows "(\<forall>amount_f slippage_f.
            py_float E amount = Inr amount_f
            \<and> (case slippage_pct of None \<Rightarrow> True | Some pct \<Rightarrow> py_float E pct = Inr slippage_f) \<longrightarrow>
            (\<exists>payload.
               connector_requests
                 (effects (snd (get_quote_price E s (base @ ''-'' @ quote) is_buy amount
                                  slippage_pct pool_address))) =
               connector_requests (effects s) @
                 [(gateway_instance E (effects s), ''get'', self_connector_name E, ''quote-swap'',
                   payload)]
               \<and> payload =
                   [(''network'', PyStr (self_network E)),
                    (''baseToken'', PyStr base),
                    (''quoteToken'', PyStr quote),
                    (''amount'', PyFloat amount_f),
                    (''side'', PyStr (if is_buy then ''BUY'' else ''SELL''))] @
                   (case slippage_pct of
                      None \<Rightarrow> []
                    | Some pct \<Rightarrow> [(''slippagePct'', PyFloat slippage_f)]) @
                   (case pool_address of
                      None \<Rightarrow> []
                    | Some addr \<Rightarrow>
                        if get_connector_type E (self_connector_name E) \<in> {CLMM, AMM}
                        then [(''poolAddress'', PyStr addr)] else [])
               \<and> (dict_contains payload ''slippagePct'' \<longleftrightarrow> slippage_pct \<noteq> None)
               \<and> (dict_contains payload ''poolAddress'' \<longleftrightarrow>
                    pool_address \<noteq> None
                    \<and> get_connector_type E (self_connector_name E) \<in> {CLMM, AMM})))
       \<and> (\<forall>e. py_float E amount = Inl e
                \<or> (\<exists>amount_f pct. py_float E amount = Inr amount_f \<and> slippage_pct = Some pct
                                   \<and> py_float E pct = Inl e) \<longrightarrow>
              connector_requests
                (effects (snd (get_quote_price E s (base @ ''-'' @ quote) is_buy amount
                                 slippage_pct pool_address))) =
              connector_requests (effects s)
              \<and> (isinstance_Exception e \<and> e \<noteq> CancelledError \<longrightarrow>
                   get_quote_price E s (base @ ''-'' @ quote) is_buy amount slippage_pct pool_address =
                     (Inr None,
                      logger (NetworkErrorQuotePrice (base @ ''-'' @ quote)
                                (if is_buy then BUY else SELL) amount e) s)))"
proof -
  have bq: "unpack2 (split CHR ''-'' (base @ ''-'' @ quote)) = Inr (base, quote)"
    using assms by (simp add: split_base_quote)
  have name: "trade_type_name (if is_buy then BUY else SELL) = (if is_buy then ''BUY'' else ''SELL'')"
    by simp
  have sent: "\<exists>payload.
               connector_requests
                 (effects (snd (get_quote_price E s (base @ ''-'' @ quote) is_buy amount
                                  slippage_pct pool_address))) =
               connector_requests (effects s) @
                 [(gateway_instance E (effects s), ''get'', self_connector_name E, ''quote-swap'',
                   payload)]
               \<and> payload =
                   [(''network'', PyStr (self_network E)),
                    (''baseToken'', PyStr base),
                    (''quoteToken'', PyStr quote),
                    (''amount'', PyFloat amount_f),
                    (''side'', PyStr (if is_buy then ''BUY'' else ''SELL''))] @
                   (case slippage_pct of
                      None \<Rightarrow> []
                    | Some pct \<Rightarrow> [(''slippagePct'', PyFloat slippage_f)]) @
                   (case pool_address of
                      None \<Rightarrow> []
                    | Some addr \<Rightarrow>
                        if get_connector_type E (self_connector_name E) \<in> {CLMM, AMM}
                        then [(''poolAddress'', PyStr addr)] else [])
               \<and> (dict_contains payload ''slippagePct'' \<longleftrightarrow> slippage_pct \<noteq> None)
               \<and> (dict_contains payload ''poolAddress'' \<longleftrightarrow>
                    pool_address \<noteq> None
                    \<and> get_connector_type E (self_connector_name E) \<in> {CLMM, AMM})"
    if a: "py_float E amount = Inr amount_f"
      and sl: "case slippage_pct of None \<Rightarrow> True | Some pct \<Rightarrow> py_float E pct = Inr slippage_f"
    for amount_f slippage_f
  proof -
    define payload where "payload =
         [(''network'', PyStr (self_network E)),
          (''baseToken'', PyStr base),
          (''quoteToken'', PyStr quote),
          (''amount'', PyFloat amount_f),
          (''side'', PyStr (if is_buy then ''BUY'' else ''SELL''))] @
         (case slippage_pct of
            None \<Rightarrow> []
          | Some pct \<Rightarrow> [(''slippagePct'', PyFloat slippage_f)]) @
         (case pool_address of
            None \<Rightarrow> []
          | Some addr \<Rightarrow>
              if get_connector_type E (self_connector_name E) \<in> {CLMM, AMM}
              then [(''poolAddress'', PyStr addr)] else [])"
    have p: "quote_request_payload E base quote (if is_buy then BUY else SELL) amount
               slippage_pct pool_address = Inr payload"
      unfolding payload_def name [symmetric]
      by (rule quote_request_payload_explicit [OF a sl])
    from get_quote_price_effects [OF bq p, of s]
    obtain evs where
      evs: "effects (snd (get_quote_price E s (base @ ''-'' @ quote) is_buy amount
                            slippage_pct pool_address)) =
             effects s @
             [GetGatewayInstance,
              ConnectorRequest (gateway_instance E (effects s)) ''get'' (self_connector_name E)
                ''quote-swap'' payload] @ evs"
      and logs: "list_all is_log evs"
      by blast
    have req: "connector_requests
               (effects (snd (get_quote_price E s (base @ ''-'' @ quote) is_buy amount
                                slippage_pct pool_address))) =
             connector_requests (effects s) @
               [(gateway_instance E (effects s), ''get'', self_connector_name E, ''quote-swap'',
                 payload)]"
      unfolding evs by (simp add: connector_requests_append connector_requests_logs [OF logs])
    have slip: "dict_contains payload ''slippagePct'' \<longleftrightarrow> slippage_pct \<noteq> None"
      by (cases slippage_pct; cases pool_address)
        (auto simp add: payload_def dict_contains_def dict_keys_def)
    have pool: "dict_contains payload ''poolAddress'' \<longleftrightarrow>
                pool_address \<noteq> None \<and> get_connector_type E (self_connector_name E) \<in> {CLMM, AMM}"
      by (cases slippage_pct; cases pool_address)
        (auto simp add: payload_def dict_contains_def dict_keys_def)
    from req slip pool payload_def show ?thesis by blast
  qed
  have unsent: "connector_requests
                (effects (snd (get_quote_price E s (base @ ''-'' @ quote) is_buy amount
                                 slippage_pct pool_address))) =
              connector_requests (effects s)
              \<and> (isinstance_Exception e \<and> e \<noteq> CancelledError \<longrightarrow>
                   get_quote_price E s (base @ ''-'' @ quote) is_buy amount slippage_pct pool_address =
                     (Inr None,
                      logger (NetworkErrorQuotePrice (base @ ''-'' @ quote)
                                (if is_buy then BUY else SELL) amount e) s))"
    if r: "py_float E amount = Inl e
           \<or> (\<exists>amount_f pct. py_float E amount = Inr amount_f \<and> slippage_pct = Some pct
                              \<and> py_float E pct = Inl e)"
    for e
  proof -
    have p: "quote_request_payload E base quote (if is_buy then BUY else SELL) amount
               slippage_pct pool_address = Inl e"
      using r by (auto simp: quote_request_payload_def)
    obtain evs where
      "effects (snd (get_quote_price E s (base @ ''-'' @ quote) is_buy amount
                            slippage_pct pool_address)) = effects s @ evs"
      and "list_all is_log evs"
      using get_quote_price_effects_no_payload [OF bq p, of s] by blast
    then have "connector_requests
                (effects (snd (get_quote_price E s (base @ ''-'' @ quote) is_buy amount
                                 slippage_pct pool_address))) =
              connector_requests (effects s)"
      by (simp add: connector_requests_append connector_requests_logs)
    moreover have "isinstance_Exception e \<and> e \<noteq> CancelledError \<longrightarrow>
                   get_quote_price E s (base @ ''-'' @ quote) is_buy amount slippage_pct pool_address =
                     (Inr None,
                      logger (NetworkErrorQuotePrice (base @ ''-'' @ quote)
                                (if is_buy then BUY else SELL) amount e) s)"
      using bq get_quote_price_try_no_payload [OF p, of s]
      by (simp add: get_quote_price_def)
    ultimately show ?thesis by blast
  qed
  from sent unsent show ?thesis by blast
qed

text \<open>
  A sell quote with a slippage and a pool, on an AMM connector; and a quote whose
  slippage is a signaling NaN.
\<close>

theorem get_quote_price_request_fields_witness:
  "CHR ''-'' \<notin> set ''ETH'' \<and> CHR ''-'' \<notin> set ''USDC''
   \<and> py_float example_env ''1.0'' = Inr ''1.0''
   \<and> py_float example_env ''0.5'' = Inr ''0.5''
   \<and> connector_requests
        (effects (snd (get_quote_price example_env init ''ETH-USDC'' False ''1.0''
                         (Some ''0.5'') (Some ''0xP001'')))) =
       [(0, ''get'', ''uniswap/amm'', ''quote-swap'',
         [(''network'', PyStr ''mainnet''),
          (''baseToken'', PyStr ''ETH''),
          (''quoteToken'', PyStr ''USDC''),
          (''amount'', PyFloat ''1.0''),
          (''side'', PyStr ''SELL''),
          (''slippagePct'', PyFloat ''0.5''),
          (''poolAddress'', PyStr ''0xP001'')])]
   \<and> py_float example_env ''sNaN'' = Inl (ValueError ''cannot convert signaling NaN to float'')
   \<and> get_quote_price example_env init ''ETH-USDC'' False ''1.0'' (Some ''sNaN'') None =
       (Inr None,
        \<lparr>tx_handler_attr = None,
           effects =
             [Logger (NetworkErrorQuotePrice ''ETH-USDC'' SELL ''1.0''
                        (ValueError ''cannot convert signaling NaN to float''))]\<rparr>)"
  using get_quote_price_request_fields [of "''ETH''" "''USDC''" example_env "''1.0''"
      "Some ''0.5''" init False "Some ''0xP001''"]
    get_quote_price_request_fields [of "''ETH''" "''USDC''" example_env "''1.0''"
      "Some ''sNaN''" init False None]
  by (simp add: example_env_def init_def logger_def emit_def)

text \<open>
  The claim as written, for every amount, fails at an amount that \<^verbatim>\<open>float\<close> does not
  convert: the pair is of the form \<open>base-quote\<close>, and no request is sent.
\<close>

theorem get_quote_price_request_fields_counterexample:
  "split CHR ''-'' ''ETH-USDC'' = [''ETH'', ''USDC'']
   \<and> get_quote_price example_env init ''ETH-USDC'' True ''sNaN'' None None =
       (Inr None,
        \<lparr>tx_handler_attr = None,
           effects =
             [Logger (NetworkErrorQuotePrice ''ETH-USDC'' BUY ''sNaN''
                        (ValueError ''cannot convert signaling NaN to float''))]\<rparr>)
   \<and> connector_requests
        (effects (snd (get_quote_price example_env init ''ETH-USDC'' True ''sNaN'' None None))) = []"
  by (simp add: example_env_def init_def get_quote_price_def get_quote_price_try_def
      quote_request_payload_def logger_def emit_def)

subsection \<open>Exceptions in a quote\<close>

text \<open>
  Once the payload is built, the \<^verbatim>\<open>try\<close> block raises exactly when the request
  raises, or the request returns a response whose parsing raises.
\<close>

lemma get_quote_price_try_raises:
  assumes "quote_request_payload E base quote side amount slippage_pct pool_address = Inr payload"
      and "get_gateway_instance E s = (inst, s1)"
      and "connector_request E s1 inst ''get'' (self_connector_name E) ''quote-swap'' payload =
             (resp, s2)"
  shows "get_quote_price_try E s base quote side amount slippage_pct pool_address = (Inl e, s') \<longleftrightarrow>
         s' = s2 \<and>
         (resp = Inl e \<or>
          (\<exists>r. resp = Inr r \<and> fst (parse_price_response E s2 base quote amount side r True) = Inl e))"
proof (cases resp)
  case (Inl e')
  with assms show ?thesis
    by (auto simp: get_quote_price_try_def)
next
  case (Inr r)
  with assms show ?thesis
    using parse_raises_state [of E s2 base quote amount side r True e]
    by (cases "parse_price_response E s2 base quote amount side r True")
       (auto simp: get_quote_price_try_def)
qed

text \<open>
  Claim C3, as amended. Take an invocation of \<^verbatim>\<open>get_quote_price\<close> whose trading pair
  unpacks, which has built its payload and sent the request, and in which the gateway
  request, or the parsing of its response, raises \<open>e\<close>. If \<open>e\<close> is an instance of \<^verbatim>\<open>Exception\<close>, the error is logged and the method
  returns \<^verbatim>\<open>None\<close>. If \<open>e\<close> is \<^verbatim>\<open>asyncio.CancelledError\<close>, it is re-raised unchanged
  and nothing is logged. Any other exception that is not an instance of
  \<^verbatim>\<open>Exception\<close> leaves the method as well.
\<close>

theorem get_quote_price_handlers:
  assumes "unpack2 (split CHR ''-'' trading_pair) = Inr (base, quote)"
      and "side = (if is_buy then BUY else SELL)"
      and "quote_request_payload E base quote side amount slippage_pct pool_address = Inr payload"
      and "get_gateway_instance E s = (inst, s1)"
      and "connector_request E s1 inst ''get'' (self_connector_name E) ''quote-swap'' payload =
             (resp, s2)"
      and "resp = Inl e \<or>
           (\<exists>r. resp = Inr r \<and> fst (parse_price_response E s2 base quote amount side r True) = Inl e)"
  shows "(isinstance_Exception e \<and> e \<noteq> CancelledError \<longrightarrow>
            get_quote_price E s trading_pair is_buy amount slippage_pct pool_address =
              (Inr None, logger (NetworkErrorQuotePrice trading_pair side amount e) s2))
       \<and> (e = CancelledError \<longrightarrow>
            get_quote_price E s trading_pair is_buy amount slippage_pct pool_address =
              (Inl CancelledError, s2))
       \<and> (\<not> isinstance_Exception e \<longrightarrow>
            get_quote_price E s trading_pair is_buy amount slippage_pct pool_address = (Inl e, s2))"
proof -
  have "get_quote_price_try E s base quote side amount slippage_pct pool_address = (Inl e, s2)"
    using get_quote_price_try_raises [OF assms(3,4,5)] assms(6) by blast
  with assms(1,2) show ?thesis
    by (cases e) (simp_all add: get_quote_price_def)
qed

text \<open>A request that times out: the error is logged after the request, and the result is \<^verbatim>\<open>None\<close>.\<close>

theorem get_quote_price_handlers_witness:
  "unpack2 (split CHR ''-'' ''ETH-USDC'') = Inr (''ETH'', ''USDC'')
   \<and> fst (connector_request (request_raising (OtherException ''TimeoutError'' ''late''))
            \<lparr>tx_handler_attr = None, effects = [GetGatewayInstance]\<rparr> 0 ''get'' ''uniswap/amm''
            ''quote-swap''
            [(''network'', PyStr ''mainnet''), (''baseToken'', PyStr ''ETH''),
             (''quoteToken'', PyStr ''USDC''), (''amount'', PyFloat ''1.0''),
             (''side'', PyStr ''BUY'')]) = Inl (OtherException ''TimeoutError'' ''late'')
   \<and> get_quote_price (request_raising (OtherException ''TimeoutError'' ''late'')) init
         ''ETH-USDC'' True ''1.0'' None None =
       (Inr None,
        \<lparr>tx_handler_attr = None,
           effects =
             [GetGatewayInstance,
              ConnectorRequest 0 ''get'' ''uniswap/amm'' ''quote-swap''
                [(''network'', PyStr ''mainnet''), (''baseToken'', PyStr ''ETH''),
                 (''quoteToken'', PyStr ''USDC''), (''amount'', PyFloat ''1.0''),
                 (''side'', PyStr ''BUY'')],
              Logger (NetworkErrorQuotePrice ''ETH-USDC'' BUY ''1.0''
                        (OtherException ''TimeoutError'' ''late''))]\<rparr>)"
  using get_quote_price_handlers
    [where trading_pair = "''ETH-USDC''" and base = "''ETH''" and quote = "''USDC''" and side = BUY
       and is_buy = True and E = "request_raising (OtherException ''TimeoutError'' ''late'')"
       and s = init and amount = "''1.0''" and slippage_pct = None and pool_address = None
       and payload = "[(''network'', PyStr ''mainnet''), (''baseToken'', PyStr ''ETH''),
                       (''quoteToken'', PyStr ''USDC''), (''amount'', PyFloat ''1.0''),
                       (''side'', PyStr ''BUY'')]"
       and inst = 0 and ?s1.0 = "\<lparr>tx_handler_attr = None, effects = [GetGatewayInstance]\<rparr>"
       and resp = "Inl (OtherException ''TimeoutError'' ''late'')"
       and ?s2.0 = "\<lparr>tx_handler_attr = None, effects =
          [GetGatewayInstance,
           ConnectorRequest 0 ''get'' ''uniswap/amm'' ''quote-swap''
             [(''network'', PyStr ''mainnet''), (''baseToken'', PyStr ''ETH''),
              (''quoteToken'', PyStr ''USDC''), (''amount'', PyFloat ''1.0''),
              (''side'', PyStr ''BUY'')]]\<rparr>"
       and e = "OtherException ''TimeoutError'' ''late''"]
  by (simp add: request_raising_def example_env_def init_def get_gateway_instance_def
      connector_request_def quote_request_payload_def logger_def emit_def)

text \<open>
  The claim as written fails: a \<^verbatim>\<open>KeyboardInterrupt\<close> raised by the gateway request is
  an exception other than \<^verbatim>\<open>CancelledError\<close>, and it leaves \<^verbatim>\<open>get_quote_price\<close>
  unlogged instead of turning into \<^verbatim>\<open>None\<close>.
\<close>

theorem get_quote_price_handlers_counterexample:
  "fst (connector_request (request_raising (OtherBaseException ''KeyboardInterrupt'' ''''))
          \<lparr>tx_handler_attr = None, effects = [GetGatewayInstance]\<rparr> 0 ''get'' ''uniswap/amm''
          ''quote-swap''
          [(''network'', PyStr ''mainnet''), (''baseToken'', PyStr ''ETH''),
           (''quoteToken'', PyStr ''USDC''), (''amount'', PyFloat ''1.0''),
           (''side'', PyStr ''BUY'')]) = Inl (OtherBaseException ''KeyboardInterrupt'' '''')
   \<and> OtherBaseException ''KeyboardInterrupt'' '''' \<noteq> CancelledError
   \<and> get_quote_price (request_raising (OtherBaseException ''KeyboardInterrupt'' '''')) init
         ''ETH-USDC'' True ''1.0'' None None =
       (Inl (OtherBaseException ''KeyboardInterrupt'' ''''),
        \<lparr>tx_handler_attr = None,
           effects =
             [GetGatewayInstance,
              ConnectorRequest 0 ''get'' ''uniswap/amm'' ''quote-swap''
                [(''network'', PyStr ''mainnet''), (''baseToken'', PyStr ''ETH''),
                 (''quoteToken'', PyStr ''USDC''), (''amount'', PyFloat ''1.0''),
                 (''side'', PyStr ''BUY'')]]\<rparr>)"
  by (simp add: request_raising_def example_env_def init_def get_quote_price_def
      get_quote_price_try_def get_gateway_instance_def connector_request_def
      quote_request_payload_def emit_def)

subsection \<open>Malformed trading pairs and the number of requests\<close>

text \<open>
  Claim C9. For a trading pair whose split on \<^verbatim>\<open>"-"\<close> does not give exactly two
  parts, \<^verbatim>\<open>get_quote_price\<close> raises \<^verbatim>\<open>ValueError\<close> and leaves the state as it was:
  no request has been issued and nothing has been logged. The result is the exception,
  not \<^verbatim>\<open>None\<close>.
\<close>

theorem get_quote_price_malformed_pair:
  assumes "length (split CHR ''-'' trading_pair) \<noteq> 2"
  shows "(\<exists>msg. get_quote_price E s trading_pair is_buy amount slippage_pct pool_address =
                 (Inl (ValueError msg), s))
       \<and> fst (get_quote_price E s trading_pair is_buy amount slippage_pct pool_address) \<noteq> Inr None"
proof -
  obtain msg where "unpack2 (split CHR ''-'' trading_pair) = Inl (ValueError msg)"
    using unpack2_length [OF assms] by blast
  then show ?thesis
    by (simp add: get_quote_price_def)
qed

text \<open>A pair without a separator, and one with two.\<close>

theorem get_quote_price_malformed_pair_witness:
  "length (split CHR ''-'' ''ETHUSDC'') \<noteq> 2
   \<and> get_quote_price example_env init ''ETHUSDC'' True ''1.0'' None None =
       (Inl (ValueError ''not enough values to unpack (expected 2, got 1)''), init)
   \<and> length (split CHR ''-'' ''ETH-USDC-X'') \<noteq> 2
   \<and> get_quote_price example_env init ''ETH-USDC-X'' True ''1.0'' None None =
       (Inl (ValueError ''too many values to unpack (expected 2)''), init)"
  using get_quote_price_malformed_pair [of "''ETHUSDC''" example_env init True "''1.0''" None None]
    get_quote_price_malformed_pair [of "''ETH-USDC-X''" example_env init True "''1.0''" None None]
  by (simp add: get_quote_price_def)

text \<open>
  Claim C7, as amended. One execution of the body of \<^verbatim>\<open>get_quote_price\<close> (an
  invocation that the \<^verbatim>\<open>async_ttl_cache\<close> wrapper passes on to the method) issues
  exactly one request, a \<^verbatim>\<open>get\<close> to \<^verbatim>\<open>"quote-swap"\<close>, when the trading pair splits
  into exactly two parts and \<^verbatim>\<open>float\<close> converts the amount, and the slippage when
  there is one; this whatever the gateway answers or raises: nothing is retried. In
  every other case, a pair that does not split into two parts or a conversion that
  raises, it issues none.
\<close>

theorem get_quote_price_one_request:
  "(length (split CHR ''-'' trading_pair) = 2
    \<and> \<not> raises (py_float E amount)
    \<and> (\<forall>pct. slippage_pct = Some pct \<longrightarrow> \<not> raises (py_float E pct)) \<longrightarrow>
      (\<exists>inst payload.
         connector_requests
           (effects (snd (get_quote_price E s trading_pair is_buy amount slippage_pct pool_address))) =
         connector_requests (effects s) @
           [(inst, ''get'', self_connector_name E, ''quote-swap'', payload)]))
   \<and> (length (split CHR ''-'' trading_pair) \<noteq> 2
       \<or> raises (py_float E amount)
       \<or> (\<exists>pct. slippage_pct = Some pct \<and> raises (py_float E pct)) \<longrightarrow>
        connector_requests
          (effects (snd (get_quote_price E s trading_pair is_buy amount slippage_pct pool_address))) =
        connector_requests (effects s))"
proof (cases "length (split CHR ''-'' trading_pair) = 2")
  case False
  then obtain msg where "unpack2 (split CHR ''-'' trading_pair) = Inl (ValueError msg)"
    using unpack2_length by blast
  with False show ?thesis
    by (simp add: get_quote_price_def)
next
  case True
  then obtain base quote where bq: "unpack2 (split CHR ''-'' trading_pair) = Inr (base, quote)"
    using unpack2_length2 by blast
  show ?thesis
  proof (cases "quote_request_payload E base quote (if is_buy then BUY else SELL) amount
                  slippage_pct pool_address")
    case (Inr payload)
    then have ok: "\<not> raises (py_float E amount)
        \<and> (\<forall>pct. slippage_pct = Some pct \<longrightarrow> \<not> raises (py_float E pct))"
      by (auto simp: quote_request_payload_def Let_def split: sum.splits option.splits)
    from get_quote_price_effects [OF bq Inr, of s]
    obtain evs where
      evs: "effects (snd (get_quote_price E s trading_pair is_buy amount slippage_pct pool_address)) =
             effects s @
             [GetGatewayInstance,
              ConnectorRequest (gateway_instance E (effects s)) ''get'' (self_connector_name E)
                ''quote-swap'' payload] @ evs"
      and logs: "list_all is_log evs"
      by blast
    have "connector_requests
             (effects (snd (get_quote_price E s trading_pair is_buy amount slippage_pct pool_address))) =
           connector_requests (effects s) @
             [(gateway_instance E (effects s), ''get'', self_connector_name E, ''quote-swap'', payload)]"
      unfolding evs by (simp add: connector_requests_append connector_requests_logs [OF logs])
    with True ok show ?thesis by blast
  next
    case (Inl e)
    then have bad: "raises (py_float E amount)
        \<or> (\<exists>pct. slippage_pct = Some pct \<and> raises (py_float E pct))"
      by (auto simp: quote_request_payload_def Let_def split: sum.splits option.splits)
    obtain evs where
      "effects (snd (get_quote_price E s trading_pair is_buy amount slippage_pct pool_address)) =
         effects s @ evs"
      and "list_all is_log evs"
      using get_quote_price_effects_no_payload [OF bq Inl, of s] by blast
    then have "connector_requests
          (effects (snd (get_quote_price E s trading_pair is_buy amount slippage_pct pool_address))) =
        connector_requests (effects s)"
      by (simp add: connector_requests_append connector_requests_logs)
    with bad show ?thesis by blast
  qed
qed

text \<open>
  One request when the gateway answers, one when it raises; none for a malformed pair,
  none for an amount that does not convert.
\<close>

theorem get_quote_price_one_request_witness:
  "length (split CHR ''-'' ''ETH-USDC'') = 2
   \<and> \<not> raises (py_float example_env ''1.0'')
   \<and> length (connector_requests
         (effects (snd (get_quote_price example_env init ''ETH-USDC'' True ''1.0'' None None)))) = 1
   \<and> length (connector_requests
         (effects (snd (get_quote_price (request_raising (OtherException ''TimeoutError'' ''late''))
                          init ''ETH-USDC'' True ''1.0'' None None)))) = 1
   \<and> length (split CHR ''-'' ''ETHUSDC'') \<noteq> 2
   \<and> connector_requests
         (effects (snd (get_quote_price example_env init ''ETHUSDC'' True ''1.0'' None None))) = []
   \<and> raises (py_float example_env ''sNaN'')
   \<and> connector_requests
         (effects (snd (get_quote_price example_env init ''ETH-USDC'' True ''sNaN'' None None))) = []"
  using get_quote_price_one_request
      [where trading_pair = "''ETH-USDC''" and E = example_env and s = init and is_buy = True
         and amount = "''1.0''" and slippage_pct = None and pool_address = None]
    get_quote_price_one_request
      [where trading_pair = "''ETH-USDC''"
         and E = "request_raising (OtherException ''TimeoutError'' ''late'')" and s = init
         and is_buy = True and amount = "''1.0''" and slippage_pct = None and pool_address = None]
    get_quote_price_one_request
      [where trading_pair = "''ETHUSDC''" and E = example_env and s = init and is_buy = True
         and amount = "''1.0''" and slippage_pct = None and pool_address = None]
    get_quote_price_one_request
      [where trading_pair = "''ETH-USDC''" and E = example_env and s = init and is_buy = True
         and amount = "''sNaN''" and slippage_pct = None and pool_address = None]
  by (auto simp add: init_def example_env_def request_raising_def)

text \<open>
  The claim as written, for every invocation, fails at a trading pair without a
  separator: the method raises before the request and issues none. It fails as well
  at a slippage that \<^verbatim>\<open>float\<close> does not convert: the error is logged, the result is
  \<^verbatim>\<open>None\<close>, and no request is issued.
\<close>

theorem get_quote_price_one_request_counterexample:
  "get_quote_price example_env init ''ETHUSDC'' True ''1.0'' None None =
     (Inl (ValueError ''not enough values to unpack (expected 2, got 1)''), init)
   \<and> length (connector_requests
         (effects (snd (get_quote_price example_env init ''ETHUSDC'' True ''1.0'' None None)))) = 0
   \<and> length (connector_requests
         (effects (snd (get_quote_price example_env init ''ETH-USDC'' False ''1.0''
                          (Some ''sNaN'') None)))) = 0"
  by (simp add: get_quote_price_def get_quote_price_try_def quote_request_payload_def
      example_env_def init_def logger_def emit_def)

subsection \<open>The order price\<close>

text \<open>
  Claim C8. \<^verbatim>\<open>get_order_price\<close> gives what \<^verbatim>\<open>get_quote_price\<close> gives on the same
  trading pair, flag and amount with \<open>slippage_pct\<close> and \<open>pool_address\<close> at their
  default \<^verbatim>\<open>None\<close>: the same result and the same state.
\<close>

theorem get_order_price_is_quote_price:
  "get_order_price E s trading_pair is_buy amount =
   get_quote_price E s trading_pair is_buy amount None None"
  by (simp add: get_order_price_def)

subsection \<open>Placing an order\<close>

text \<open>
  Claim C5. \<^verbatim>\<open>buy\<close> returns the order id that \<^verbatim>\<open>create_market_order_id\<close> produces
  for \<^verbatim>\<open>TradeType.BUY\<close> and the trading pair, \<^verbatim>\<open>sell\<close> the one it produces for
  \<^verbatim>\<open>TradeType.SELL\<close>; the id is the same whatever the amount, the order type and the
  price are. Neither method runs the order creation: all they do is ask for the id and
  hand the coroutine of \<^verbatim>\<open>_create_order\<close>, with that id and their arguments, to
  \<^verbatim>\<open>safe_ensure_future\<close>.
\<close>

theorem buy_sell_return_order_id:
  "fst (buy E s trading_pair amount order_type price) =
     fst (create_market_order_id E s BUY trading_pair)
   \<and> fst (sell E s trading_pair amount order_type price) =
       fst (create_market_order_id E s SELL trading_pair)
   \<and> fst (buy E s trading_pair amount order_type price) =
       fst (buy E s trading_pair amount' order_type' price')
   \<and> fst (sell E s trading_pair amount order_type price) =
       fst (sell E s trading_pair amount' order_type' price')
   \<and> effects (snd (buy E s trading_pair amount order_type price)) =
       effects s @
       [CreateMarketOrderId BUY trading_pair,
        SafeEnsureFuture
          (CreateOrderCoroutine BUY (fst (create_market_order_id E s BUY trading_pair))
             trading_pair amount price)]
   \<and> effects (snd (sell E s trading_pair amount order_type price)) =
       effects s @
       [CreateMarketOrderId SELL trading_pair,
        SafeEnsureFuture
          (CreateOrderCoroutine SELL (fst (create_market_order_id E s SELL trading_pair))
             trading_pair amount price)]"
  by (simp add: buy_def sell_def place_order_def create_market_order_id_def safe_ensure_future_def
      effects_emit)

subsection \<open>Creating an order\<close>

lemma submitted_transactions_append:
  "submitted_transactions (xs @ ys) = submitted_transactions xs @ submitted_transactions ys"
  by (induction xs rule: submitted_transactions.induct) auto

lemma tx_handler_None:
  "tx_handler_attr s = None \<Longrightarrow>
   tx_handler E s =
     (gateway_instance E (effects s),
      (emit GetGatewayInstance s)\<lparr>tx_handler_attr := Some (gateway_instance E (effects s))\<rparr>)"
  by (simp add: tx_handler_def get_gateway_instance_def)

lemma tx_handler_Some: "tx_handler_attr s = Some h \<Longrightarrow> tx_handler E s = (h, s)"
  by (simp add: tx_handler_def)

lemma tx_handler_effects:
  "effects (snd (tx_handler E s)) =
   effects s @ (if tx_handler_attr s = None then [GetGatewayInstance] else [])"
  by (cases "tx_handler_attr s") (simp_all add: tx_handler_None tx_handler_Some effects_emit)

lemma tx_handler_stored:
  "tx_handler_attr (snd (tx_handler E s)) = Some (fst (tx_handler E s))"
  by (cases "tx_handler_attr s") (simp_all add: tx_handler_None tx_handler_Some)

text \<open>The \<^verbatim>\<open>try\<close> block of \<^verbatim>\<open>_create_order\<close>, by what the conversion and the call do.\<close>

lemma create_order_try_no_params:
  assumes "tx_handler E s1 = (handler, s2)"
      and "swap_params E base quote amount trade_type = Inl e"
  shows "create_order_try E s1 trade_type order_id base quote amount = (Some e, s2)"
  using assms by (simp add: create_order_try_def)

lemma create_order_try_call:
  assumes "tx_handler E s1 = (handler, s2)"
      and "swap_params E base quote amount trade_type = Inr params"
      and "execute_transaction E s2 handler (self_chain E) (self_network E) (self_connector_name E)
             ''execute-swap'' params order_id = (outcome, s3)"
  shows "create_order_try E s1 trade_type order_id base quote amount =
           (case outcome of
              None \<Rightarrow> (None, logger (InfoSwapSubmitted order_id) s3)
            | Some e \<Rightarrow> (Some e, s3))"
  using assms by (simp add: create_order_try_def)

lemma create_order_unpacked:
  assumes "unpack2 (split CHR ''-'' trading_pair) = Inr (base, quote)"
      and "create_order_try E
             (start_tracking_order s order_id trading_pair trade_type
                (quantize_order_price E trading_pair price)
                (quantize_order_amount E trading_pair amount))
             trade_type order_id base quote (quantize_order_amount E trading_pair amount) = (r, s')"
  shows "create_order E s trade_type order_id trading_pair amount price =
           (case r of
              None \<Rightarrow> (Inr (), s')
            | Some e \<Rightarrow>
                (if e = CancelledError then (Inl e, s')
                 else if isinstance_Exception e then
                   (Inr (),
                    handle_operation_failure s' order_id trading_pair
                      (''submitting '' @ trade_type_name trade_type @ '' swap order'') e)
                 else (Inl e, s')))"
  using assms by (simp add: create_order_def Let_def split: option.splits)

lemma tracked_handler_effects:
  assumes "tx_handler E
             (start_tracking_order s order_id trading_pair trade_type price amount) = (handler, s2)"
  shows "effects s2 =
           effects s @
           [StartTrackingOrder order_id trading_pair trade_type price amount] @
           (if tx_handler_attr s = None then [GetGatewayInstance] else [])"
  using tx_handler_effects
          [of E "start_tracking_order s order_id trading_pair trade_type price amount"] assms
  by (simp add: start_tracking_order_def effects_emit tx_handler_attr_emit)

lemma execute_transaction_effects:
  "execute_transaction E s2 handler chain network connector meth params order_id = (outcome, s3) \<Longrightarrow>
   effects s3 =
     effects s2 @ [ExecuteTransaction handler chain network connector meth params order_id]
   \<and> tx_handler_attr s3 = tx_handler_attr s2"
  by (auto simp: execute_transaction_def effects_emit tx_handler_attr_emit)

text \<open>
  The trace of \<^verbatim>\<open>_create_order\<close> on a pair that unpacks: tracking, the handler, then,
  when the parameters are built, the transaction; what follows submits nothing.
\<close>

lemma create_order_effects:
  assumes "unpack2 (split CHR ''-'' trading_pair) = Inr (base, quote)"
      and "swap_params E base quote (quantize_order_amount E trading_pair amount) trade_type =
             Inr params"
  shows "\<exists>handler evs.
           effects (snd (create_order E s trade_type order_id trading_pair amount price)) =
             effects s @
             [StartTrackingOrder order_id trading_pair trade_type
                (quantize_order_price E trading_pair price)
                (quantize_order_amount E trading_pair amount)] @
             (if tx_handler_attr s = None then [GetGatewayInstance] else []) @
             [ExecuteTransaction handler (self_chain E) (self_network E) (self_connector_name E)
                ''execute-swap'' params order_id] @ evs
           \<and> submitted_transactions evs = []"
proof -
  define s1 where "s1 = start_tracking_order s order_id trading_pair trade_type
                  (quantize_order_price E trading_pair price)
                  (quantize_order_amount E trading_pair amount)"
  obtain handler s2 where h: "tx_handler E s1 = (handler, s2)"
    by (cases "tx_handler E s1")
  obtain outcome s3 where x: "execute_transaction E s2 handler (self_chain E) (self_network E)
             (self_connector_name E) ''execute-swap'' params order_id = (outcome, s3)"
    by (cases "execute_transaction E s2 handler (self_chain E) (self_network E)
             (self_connector_name E) ''execute-swap'' params order_id")
  have s2: "effects s2 =
           effects s @
           [StartTrackingOrder order_id trading_pair trade_type
              (quantize_order_price E trading_pair price)
              (quantize_order_amount E trading_pair amount)] @
           (if tx_handler_attr s = None then [GetGatewayInstance] else [])"
    using h unfolding s1_def by (rule tracked_handler_effects)
  have s3: "effects s3 = effects s2 @
              [ExecuteTransaction handler (self_chain E) (self_network E) (self_connector_name E)
                ''execute-swap'' params order_id]"
    using execute_transaction_effects [OF x] by simp
  note t = create_order_try_call [OF h assms(2) x]
  have "\<exists>evs. effects (snd (create_order E s trade_type order_id trading_pair amount price)) =
          effects s3 @ evs \<and> submitted_transactions evs = []"
  proof (cases outcome)
    case None
    with t have "create_order_try E s1 trade_type order_id base quote
        (quantize_order_amount E trading_pair amount) = (None, logger (InfoSwapSubmitted order_id) s3)"
      by simp
    from create_order_unpacked [OF assms(1) this [unfolded s1_def]] show ?thesis
      by (simp add: logger_def effects_emit)
  next
    case (Some e)
    with t have "create_order_try E s1 trade_type order_id base quote
        (quantize_order_amount E trading_pair amount) = (Some e, s3)"
      by simp
    from create_order_unpacked [OF assms(1) this [unfolded s1_def]] show ?thesis
      by (simp add: handle_operation_failure_def effects_emit)
  qed
  then show ?thesis
    unfolding s3 s2 by auto
qed

lemma create_order_effects_no_params:
  assumes "unpack2 (split CHR ''-'' trading_pair) = Inr (base, quote)"
      and "swap_params E base quote (quantize_order_amount E trading_pair amount) trade_type = Inl e"
  shows "\<exists>evs.
           effects (snd (create_order E s trade_type order_id trading_pair amount price)) =
             effects s @
             [StartTrackingOrder order_id trading_pair trade_type
                (quantize_order_price E trading_pair price)
                (quantize_order_amount E trading_pair amount)] @
             (if tx_handler_attr s = None then [GetGatewayInstance] else []) @ evs
           \<and> submitted_transactions evs = []"
proof -
  define s1 where "s1 = start_tracking_order s order_id trading_pair trade_type
                  (quantize_order_price E trading_pair price)
                  (quantize_order_amount E trading_pair amount)"
  obtain handler s2 where h: "tx_handler E s1 = (handler, s2)"
    by (cases "tx_handler E s1")
  have s2: "effects s2 =
           effects s @
           [StartTrackingOrder order_id trading_pair trade_type
              (quantize_order_price E trading_pair price)
              (quantize_order_amount E trading_pair amount)] @
           (if tx_handler_attr s = None then [GetGatewayInstance] else [])"
    using h unfolding s1_def by (rule tracked_handler_effects)
  note t = create_order_try_no_params [OF h assms(2), of order_id]
  have "\<exists>evs. effects (snd (create_order E s trade_type order_id trading_pair amount price)) =
          effects s2 @ evs \<and> submitted_transactions evs = []"
    using create_order_unpacked [OF assms(1) t [unfolded s1_def]]
    by (simp add: handle_operation_failure_def effects_emit)
  then show ?thesis
    unfolding s2 by auto
qed

text \<open>
  Claim C4, as amended. When the trading pair unpacks into \<open>base\<close> and \<open>quote\<close> and
  \<^verbatim>\<open>float\<close> converts the quantized amount, \<^verbatim>\<open>_create_order\<close> submits one transaction,
  with method \<^verbatim>\<open>"execute-swap"\<close>, the order id, and exactly the parameters
  \<open>walletAddress\<close>, \<open>baseToken\<close>, \<open>quoteToken\<close>, \<open>amount\<close> (the float of the quantized
  amount) and \<open>side\<close> (the name of the trade type). The quantized price is in the
  tracking record that the trace holds, and what is submitted is the same for any
  other price. When the pair does not unpack, the exception leaves the method; when
  the conversion raises, the call is not made; in both cases nothing is submitted.
\<close>

theorem create_order_submits_swap:
  "(\<forall>base quote amount_f.
      unpack2 (split CHR ''-'' trading_pair) = Inr (base, quote)
      \<and> py_float E (quantize_order_amount E trading_pair amount) = Inr amount_f \<longrightarrow>
        submitted_transactions
          (effects (snd (create_order E s trade_type order_id trading_pair amount price))) =
        submitted_transactions (effects s) @
          [(''execute-swap'',
            [(''walletAddress'', PyStr (self_address E)),
             (''baseToken'', PyStr base),
             (''quoteToken'', PyStr quote),
             (''amount'', PyFloat amount_f),
             (''side'', PyStr (trade_type_name trade_type))],
            order_id)]
        \<and> StartTrackingOrder order_id trading_pair trade_type
              (quantize_order_price E trading_pair price)
              (quantize_order_amount E trading_pair amount)
            \<in> set (effects (snd (create_order E s trade_type order_id trading_pair amount price))))
   \<and> (\<forall>e. unpack2 (split CHR ''-'' trading_pair) = Inl e \<longrightarrow>
          create_order E s trade_type order_id trading_pair amount price = (Inl e, s))
   \<and> (raises (py_float E (quantize_order_amount E trading_pair amount)) \<longrightarrow>
        submitted_transactions
          (effects (snd (create_order E s trade_type order_id trading_pair amount price))) =
        submitted_transactions (effects s))
   \<and> submitted_transactions
         (effects (snd (create_order E s trade_type order_id trading_pair amount price))) =
       submitted_transactions
         (effects (snd (create_order E s trade_type order_id trading_pair amount price')))"
proof (cases "unpack2 (split CHR ''-'' trading_pair)")
  case (Inl e)
  then show ?thesis
    by (simp add: create_order_def)
next
  case (Inr bq)
  obtain base quote where bq: "unpack2 (split CHR ''-'' trading_pair) = Inr (base, quote)"
    using Inr by (cases bq) simp
  show ?thesis
  proof (cases "py_float E (quantize_order_amount E trading_pair amount)")
    case float: (Inl e)
    then have p: "swap_params E base quote (quantize_order_amount E trading_pair amount) trade_type =
        Inl e"
      by (simp add: swap_params_def)
    have "submitted_transactions
          (effects (snd (create_order E s trade_type order_id trading_pair amount q))) =
        submitted_transactions (effects s)" for q
    proof -
      obtain evs where
        "effects (snd (create_order E s trade_type order_id trading_pair amount q)) =
             effects s @
             [StartTrackingOrder order_id trading_pair trade_type
                (quantize_order_price E trading_pair q)
                (quantize_order_amount E trading_pair amount)] @
             (if tx_handler_attr s = None then [GetGatewayInstance] else []) @ evs"
        and "submitted_transactions evs = []"
        using create_order_effects_no_params [OF bq p, of s order_id q] by blast
      then show ?thesis
        by (simp add: submitted_transactions_append)
    qed
    with bq float show ?thesis by simp
  next
    case float: (Inr amount_f)
    then have p: "swap_params E base quote (quantize_order_amount E trading_pair amount) trade_type =
        Inr [(''walletAddress'', PyStr (self_address E)),
             (''baseToken'', PyStr base),
             (''quoteToken'', PyStr quote),
             (''amount'', PyFloat amount_f),
             (''side'', PyStr (trade_type_name trade_type))]"
      by (simp add: swap_params_def)
    have sub: "submitted_transactions
          (effects (snd (create_order E s trade_type order_id trading_pair amount q))) =
        submitted_transactions (effects s) @
          [(''execute-swap'',
            [(''walletAddress'', PyStr (self_address E)),
             (''baseToken'', PyStr base),
             (''quoteToken'', PyStr quote),
             (''amount'', PyFloat amount_f),
             (''side'', PyStr (trade_type_name trade_type))],
            order_id)]
        \<and> StartTrackingOrder order_id trading_pair trade_type
              (quantize_order_price E trading_pair q)
              (quantize_order_amount E trading_pair amount)
            \<in> set (effects (snd (create_order E s trade_type order_id trading_pair amount q)))"
      for q
    proof -
      obtain handler evs where
        "effects (snd (create_order E s trade_type order_id trading_pair amount q)) =
             effects s @
             [StartTrackingOrder order_id trading_pair trade_type
                (quantize_order_price E trading_pair q)
                (quantize_order_amount E trading_pair amount)] @
             (if tx_handler_attr s = None then [GetGatewayInstance] else []) @
             [ExecuteTransaction handler (self_chain E) (self_network E) (self_connector_name E)
                ''execute-swap''
                [(''walletAddress'', PyStr (self_address E)),
                 (''baseToken'', PyStr base),
                 (''quoteToken'', PyStr quote),
                 (''amount'', PyFloat amount_f),
                 (''side'', PyStr (trade_type_name trade_type))]
                order_id] @ evs"
        and "submitted_transactions evs = []"
        using create_order_effects [OF bq p, of s order_id q] by blast
      then show ?thesis
        by (simp add: submitted_transactions_append)
    qed
    from sub [of price] sub [of price'] bq float show ?thesis
      by simp
  qed
qed

text \<open>
  A buy order: the amount is cut to four characters, the price to six. A pair without
  a separator; an amount that does not convert.
\<close>

theorem create_order_submits_swap_witness:
  "unpack2 (split CHR ''-'' ''ETH-USDC'') = Inr (''ETH'', ''USDC'')
   \<and> py_float example_env (quantize_order_amount example_env ''ETH-USDC'' ''1.23456'') = Inr ''1.23''
   \<and> submitted_transactions
        (effects (snd (create_order example_env init BUY ''buy-1'' ''ETH-USDC''
                         ''1.23456'' ''2000.12345''))) =
       [(''execute-swap'',
         [(''walletAddress'', PyStr ''0xA1''),
          (''baseToken'', PyStr ''ETH''),
          (''quoteToken'', PyStr ''USDC''),
          (''amount'', PyFloat ''1.23''),
          (''side'', PyStr ''BUY'')],
         ''buy-1'')]
   \<and> StartTrackingOrder ''buy-1'' ''ETH-USDC'' BUY ''2000.1'' ''1.23''
       \<in> set (effects (snd (create_order example_env init BUY ''buy-1'' ''ETH-USDC''
                               ''1.23456'' ''2000.12345'')))
   \<and> unpack2 (split CHR ''-'' ''ETHUSDC'') =
       Inl (ValueError ''not enough values to unpack (expected 2, got 1)'')
   \<and> create_order example_env init BUY ''buy-1'' ''ETHUSDC'' ''1.23456'' ''2000.12345'' =
       (Inl (ValueError ''not enough values to unpack (expected 2, got 1)''), init)
   \<and> raises (py_float example_env (quantize_order_amount example_env ''ETH-USDC'' ''sNaN''))
   \<and> submitted_transactions
        (effects (snd (create_order example_env init BUY ''buy-1'' ''ETH-USDC''
                         ''sNaN'' ''2000.12345''))) = []"
  using create_order_submits_swap
      [where trading_pair = "''ETH-USDC''" and E = example_env and s = init and trade_type = BUY
         and order_id = "''buy-1''" and amount = "''1.23456''" and price = "''2000.12345''"
         and price' = "''2000.12345''"]
    create_order_submits_swap
      [where trading_pair = "''ETHUSDC''" and E = example_env and s = init and trade_type = BUY
         and order_id = "''buy-1''" and amount = "''1.23456''" and price = "''2000.12345''"
         and price' = "''2000.12345''"]
    create_order_submits_swap
      [where trading_pair = "''ETH-USDC''" and E = example_env and s = init and trade_type = BUY
         and order_id = "''buy-1''" and amount = "''sNaN''" and price = "''2000.12345''"
         and price' = "''2000.12345''"]
  by (simp add: example_env_def init_def)

text \<open>
  The claim as written, for every order, fails at an order whose trading pair has no
  separator: the unpacking raises, and nothing is tracked or submitted. It fails as
  well at an order whose quantized amount \<^verbatim>\<open>float\<close> does not convert: the order is
  tracked, the failure handler is called, and nothing is submitted.
\<close>

theorem create_order_submits_swap_counterexample:
  "create_order example_env init BUY ''buy-1'' ''ETHUSDC'' ''1.23456'' ''2000.12345'' =
     (Inl (ValueError ''not enough values to unpack (expected 2, got 1)''), init)
   \<and> submitted_transactions
        (effects (snd (create_order example_env init BUY ''buy-1'' ''ETHUSDC''
                         ''1.23456'' ''2000.12345''))) = []
   \<and> create_order example_env init BUY ''buy-2'' ''ETH-USDC'' ''sNaN'' ''2000.12345'' =
       (Inr (),
        \<lparr>tx_handler_attr = Some 1,
           effects =
             [StartTrackingOrder ''buy-2'' ''ETH-USDC'' BUY ''2000.1'' ''sNaN'',
              GetGatewayInstance,
              HandleOperationFailure ''buy-2'' ''ETH-USDC'' ''submitting BUY swap order''
                (ValueError ''cannot convert signaling NaN to float'')]\<rparr>)
   \<and> submitted_transactions
        (effects (snd (create_order example_env init BUY ''buy-2'' ''ETH-USDC''
                         ''sNaN'' ''2000.12345''))) = []"
  by (simp add: example_env_def init_def create_order_def create_order_try_def
      start_tracking_order_def tx_handler_def get_gateway_instance_def swap_params_def
      handle_operation_failure_def emit_def Let_def)

text \<open>
  Claim C6, as amended. In \<^verbatim>\<open>_create_order\<close> on a trading pair that unpacks, the
  tracking of the order, with the quantized price and amount, comes first in what the
  method adds to the trace, before the transaction, whether the submission then
  succeeds or raises. If the submission, the conversion \<^verbatim>\<open>float(amount)\<close> of its
  parameters included, raises an instance of \<^verbatim>\<open>Exception\<close>,
  \<^verbatim>\<open>_handle_operation_failure\<close> is called with the order id and that exception, and
  the method ends normally. If it raises \<^verbatim>\<open>asyncio.CancelledError\<close>, or any other
  exception that is not an instance of \<^verbatim>\<open>Exception\<close>, that exception leaves the
  method and the failure handler is not called. On a trading pair that does not
  unpack, the \<^verbatim>\<open>ValueError\<close> leaves the method before tracking starts.
\<close>

theorem create_order_failure_handling:
  "(\<forall>e. unpack2 (split CHR ''-'' trading_pair) = Inl e \<longrightarrow>
       create_order E s trade_type order_id trading_pair amount price = (Inl e, s))
   \<and> (\<forall>base quote handler s2.
        unpack2 (split CHR ''-'' trading_pair) = Inr (base, quote)
        \<and> tx_handler E
            (start_tracking_order s order_id trading_pair trade_type
               (quantize_order_price E trading_pair price)
               (quantize_order_amount E trading_pair amount)) = (handler, s2) \<longrightarrow>
        (\<forall>params outcome s3.
           swap_params E base quote (quantize_order_amount E trading_pair amount) trade_type =
             Inr params
           \<and> execute_transaction E s2 handler (self_chain E) (self_network E)
                (self_connector_name E) ''execute-swap'' params order_id = (outcome, s3) \<longrightarrow>
           (outcome = None \<longrightarrow>
              fst (create_order E s trade_type order_id trading_pair amount price) = Inr ()
              \<and> effects (snd (create_order E s trade_type order_id trading_pair amount price)) =
                  effects s @
                  [StartTrackingOrder order_id trading_pair trade_type
                     (quantize_order_price E trading_pair price)
                     (quantize_order_amount E trading_pair amount)] @
                  (if tx_handler_attr s = None then [GetGatewayInstance] else []) @
                  [ExecuteTransaction handler (self_chain E) (self_network E)
                     (self_connector_name E) ''execute-swap'' params order_id,
                   Logger (InfoSwapSubmitted order_id)])
           \<and> (\<forall>e. outcome = Some e \<and> isinstance_Exception e \<and> e \<noteq> CancelledError \<longrightarrow>
                 fst (create_order E s trade_type order_id trading_pair amount price) = Inr ()
                 \<and> effects (snd (create_order E s trade_type order_id trading_pair amount price)) =
                     effects s @
                     [StartTrackingOrder order_id trading_pair trade_type
                        (quantize_order_price E trading_pair price)
                        (quantize_order_amount E trading_pair amount)] @
                     (if tx_handler_attr s = None then [GetGatewayInstance] else []) @
                     [ExecuteTransaction handler (self_chain E) (self_network E)
                        (self_connector_name E) ''execute-swap'' params order_id,
                      HandleOperationFailure order_id trading_pair
                        (''submitting '' @ trade_type_name trade_type @ '' swap order'') e])
           \<and> (\<forall>e. outcome = Some e \<and> (e = CancelledError \<or> \<not> isinstance_Exception e) \<longrightarrow>
                 fst (create_order E s trade_type order_id trading_pair amount price) = Inl e
                 \<and> effects (snd (create_order E s trade_type order_id trading_pair amount price)) =
                     effects s @
                     [StartTrackingOrder order_id trading_pair trade_type
                        (quantize_order_price E trading_pair price)
                        (quantize_order_amount E trading_pair amount)] @
                     (if tx_handler_attr s = None then [GetGatewayInstance] else []) @
                     [ExecuteTransaction handler (self_chain E) (self_network E)
                        (self_connector_name E) ''execute-swap'' params order_id]))
        \<and> (\<forall>e. swap_params E base quote (quantize_order_amount E trading_pair amount) trade_type =
                  Inl e \<longrightarrow>
              (isinstance_Exception e \<and> e \<noteq> CancelledError \<longrightarrow>
                 fst (create_order E s trade_type order_id trading_pair amount price) = Inr ()
                 \<and> effects (snd (create_order E s trade_type order_id trading_pair amount price)) =
                     effects s @
                     [StartTrackingOrder order_id trading_pair trade_type
                        (quantize_order_price E trading_pair price)
                        (quantize_order_amount E trading_pair amount)] @
                     (if tx_handler_attr s = None then [GetGatewayInstance] else []) @
                     [HandleOperationFailure order_id trading_pair
                        (''submitting '' @ trade_type_name trade_type @ '' swap order'') e])
              \<and> (e = CancelledError \<or> \<not> isinstance_Exception e \<longrightarrow>
                   fst (create_order E s trade_type order_id trading_pair amount price) = Inl e
                   \<and> effects (snd (create_order E s trade_type order_id trading_pair amount price)) =
                       effects s @
                       [StartTrackingOrder order_id trading_pair trade_type
                          (quantize_order_price E trading_pair price)
                          (quantize_order_amount E trading_pair amount)] @
                       (if tx_handler_attr s = None then [GetGatewayInstance] else []))))"
proof -
  have malformed: "\<forall>e. unpack2 (split CHR ''-'' trading_pair) = Inl e \<longrightarrow>
       create_order E s trade_type order_id trading_pair amount price = (Inl e, s)"
    by (simp add: create_order_def)
  have call: "(outcome = None \<longrightarrow>
              fst (create_order E s trade_type order_id trading_pair amount price) = Inr ()
              \<and> effects (snd (create_order E s trade_type order_id trading_pair amount price)) =
                  effects s @
                  [StartTrackingOrder order_id trading_pair trade_type
                     (quantize_order_price E trading_pair price)
                     (quantize_order_amount E trading_pair amount)] @
                  (if tx_handler_attr s = None then [GetGatewayInstance] else []) @
                  [ExecuteTransaction handler (self_chain E) (self_network E)
                     (self_connector_name E) ''execute-swap'' params order_id,
                   Logger (InfoSwapSubmitted order_id)])
           \<and> (\<forall>e. outcome = Some e \<and> isinstance_Exception e \<and> e \<noteq> CancelledError \<longrightarrow>
                 fst (create_order E s trade_type order_id trading_pair amount price) = Inr ()
                 \<and> effects (snd (create_order E s trade_type order_id trading_pair amount price)) =
                     effects s @
                     [StartTrackingOrder order_id trading_pair trade_type
                        (quantize_order_price E trading_pair price)
                        (quantize_order_amount E trading_pair amount)] @
                     (if tx_handler_attr s = None then [GetGatewayInstance] else []) @
                     [ExecuteTransaction handler (self_chain E) (self_network E)
                        (self_connector_name E) ''execute-swap'' params order_id,
                      HandleOperationFailure order_id trading_pair
                        (''submitting '' @ trade_type_name trade_type @ '' swap order'') e])
           \<and> (\<forall>e. outcome = Some e \<and> (e = CancelledError \<or> \<not> isinstance_Exception e) \<longrightarrow>
                 fst (create_order E s trade_type order_id trading_pair amount price) = Inl e
                 \<and> effects (snd (create_order E s trade_type order_id trading_pair amount price)) =
                     effects s @
                     [StartTrackingOrder order_id trading_pair trade_type
                        (quantize_order_price E trading_pair price)
                        (quantize_order_amount E trading_pair amount)] @
                     (if tx_handler_attr s = None then [GetGatewayInstance] else []) @
                     [ExecuteTransaction handler (self_chain E) (self_network E)
                        (self_connector_name E) ''execute-swap'' params order_id])"
    if bq: "unpack2 (split CHR ''-'' trading_pair) = Inr (base, quote)"
      and h: "tx_handler E
            (start_tracking_order s order_id trading_pair trade_type
               (quantize_order_price E trading_pair price)
               (quantize_order_amount E trading_pair amount)) = (handler, s2)"
      and p: "swap_params E base quote (quantize_order_amount E trading_pair amount) trade_type =
             Inr params"
      and x: "execute_transaction E s2 handler (self_chain E) (self_network E)
                (self_connector_name E) ''execute-swap'' params order_id = (outcome, s3)"
    for base quote handler s2 params outcome s3
  proof -
    have s3: "effects s3 =
        effects s @
        [StartTrackingOrder order_id trading_pair trade_type
           (quantize_order_price E trading_pair price)
           (quantize_order_amount E trading_pair amount)] @
        (if tx_handler_attr s = None then [GetGatewayInstance] else []) @
        [ExecuteTransaction handler (self_chain E) (self_network E)
           (self_connector_name E) ''execute-swap'' params order_id]"
      using execute_transaction_effects [OF x] tracked_handler_effects [OF h] by simp
    note t = create_order_try_call [OF h p x]
    show ?thesis
    proof (cases outcome)
      case None
      with t have "create_order_try E
             (start_tracking_order s order_id trading_pair trade_type
                (quantize_order_price E trading_pair price)
                (quantize_order_amount E trading_pair amount))
             trade_type order_id base quote (quantize_order_amount E trading_pair amount) =
          (None, logger (InfoSwapSubmitted order_id) s3)"
        by simp
      from create_order_unpacked [OF bq this] None s3 show ?thesis
        by (simp add: logger_def effects_emit)
    next
      case (Some e)
      with t have "create_order_try E
             (start_tracking_order s order_id trading_pair trade_type
                (quantize_order_price E trading_pair price)
                (quantize_order_amount E trading_pair amount))
             trade_type order_id base quote (quantize_order_amount E trading_pair amount) =
          (Some e, s3)"
        by simp
      from create_order_unpacked [OF bq this] Some s3 show ?thesis
        by (cases e) (simp_all add: handle_operation_failure_def effects_emit)
    qed
  qed
  have conv: "(isinstance_Exception e \<and> e \<noteq> CancelledError \<longrightarrow>
                 fst (create_order E s trade_type order_id trading_pair amount price) = Inr ()
                 \<and> effects (snd (create_order E s trade_type order_id trading_pair amount price)) =
                     effects s @
                     [StartTrackingOrder order_id trading_pair trade_type
                        (quantize_order_price E trading_pair price)
                        (quantize_order_amount E trading_pair amount)] @
                     (if tx_handler_attr s = None then [GetGatewayInstance] else []) @
                     [HandleOperationFailure order_id trading_pair
                        (''submitting '' @ trade_type_name trade_type @ '' swap order'') e])
              \<and> (e = CancelledError \<or> \<not> isinstance_Exception e \<longrightarrow>
                   fst (create_order E s trade_type order_id trading_pair amount price) = Inl e
                   \<and> effects (snd (create_order E s trade_type order_id trading_pair amount price)) =
                       effects s @
                       [StartTrackingOrder order_id trading_pair trade_type
                          (quantize_order_price E trading_pair price)
                          (quantize_order_amount E trading_pair amount)] @
                       (if tx_handler_attr s = None then [GetGatewayInstance] else []))"
    if bq: "unpack2 (split CHR ''-'' trading_pair) = Inr (base, quote)"
      and h: "tx_handler E
            (start_tracking_order s order_id trading_pair trade_type
               (quantize_order_price E trading_pair price)
               (quantize_order_amount E trading_pair amount)) = (handler, s2)"
      and p: "swap_params E base quote (quantize_order_amount E trading_pair amount) trade_type =
             Inl e"
    for base quote handler s2 e
  proof -
    note s2 = tracked_handler_effects [OF h]
    note t = create_order_try_no_params [OF h p, of order_id]
    from create_order_unpacked [OF bq t] s2 show ?thesis
      by (cases e) (simp_all add: handle_operation_failure_def effects_emit)
  qed
  show ?thesis
    apply (rule conjI)
     apply (rule malformed)
    apply (intro allI)
    apply (rule impI)
    apply (erule conjE)
    apply (rule conjI)
     apply (intro allI)
     apply (rule impI)
     apply (erule conjE)
     apply (rule call; assumption)
    apply (intro allI)
    apply (rule impI)
    apply (rule conv; assumption)
    done
qed

text \<open>
  A submission that times out, on a fresh object: the order is tracked, the handler is
  made, the transaction is submitted, and the failure handler is called.
\<close>

theorem create_order_failure_handling_witness:
  "unpack2 (split CHR ''-'' ''ETH-USDC'') = Inr (''ETH'', ''USDC'')
   \<and> fst (tx_handler (transaction_raising (OtherException ''TimeoutError'' ''late''))
            (start_tracking_order init ''sell-1'' ''ETH-USDC'' SELL ''2000.1'' ''1.23'')) = 1
   \<and> swap_params (transaction_raising (OtherException ''TimeoutError'' ''late''))
         ''ETH'' ''USDC'' ''1.23'' SELL =
       Inr [(''walletAddress'', PyStr ''0xA1''),
            (''baseToken'', PyStr ''ETH''),
            (''quoteToken'', PyStr ''USDC''),
            (''amount'', PyFloat ''1.23''),
            (''side'', PyStr ''SELL'')]
   \<and> isinstance_Exception (OtherException ''TimeoutError'' ''late'')
   \<and> fst (create_order (transaction_raising (OtherException ''TimeoutError'' ''late'')) init SELL
            ''sell-1'' ''ETH-USDC'' ''1.23456'' ''2000.12345'') = Inr ()
   \<and> effects (snd (create_order (transaction_raising (OtherException ''TimeoutError'' ''late''))
                      init SELL ''sell-1'' ''ETH-USDC'' ''1.23456'' ''2000.12345'')) =
       [StartTrackingOrder ''sell-1'' ''ETH-USDC'' SELL ''2000.1'' ''1.23'',
        GetGatewayInstance,
        ExecuteTransaction 1 ''ethereum'' ''mainnet'' ''uniswap/amm'' ''execute-swap''
          [(''walletAddress'', PyStr ''0xA1''),
           (''baseToken'', PyStr ''ETH''),
           (''quoteToken'', PyStr ''USDC''),
           (''amount'', PyFloat ''1.23''),
           (''side'', PyStr ''SELL'')]
          ''sell-1'',
        HandleOperationFailure ''sell-1'' ''ETH-USDC'' ''submitting SELL swap order''
          (OtherException ''TimeoutError'' ''late'')]"
  using create_order_failure_handling
      [where trading_pair = "''ETH-USDC''"
         and E = "transaction_raising (OtherException ''TimeoutError'' ''late'')"
         and s = init and trade_type = SELL and order_id = "''sell-1''"
         and amount = "''1.23456''" and price = "''2000.12345''",
       THEN conjunct2, rule_format,
       where base = "''ETH''" and quote = "''USDC''" and handler = 1
         and ?s2.0 = "\<lparr>tx_handler_attr = Some 1,
                        effects = [StartTrackingOrder ''sell-1'' ''ETH-USDC'' SELL ''2000.1'' ''1.23'',
                                   GetGatewayInstance]\<rparr>",
       THEN conjunct1, rule_format,
       where params = "[(''walletAddress'', PyStr ''0xA1''),
                        (''baseToken'', PyStr ''ETH''),
                        (''quoteToken'', PyStr ''USDC''),
                        (''amount'', PyFloat ''1.23''),
                        (''side'', PyStr ''SELL'')]"
         and outcome = "Some (OtherException ''TimeoutError'' ''late'')"
         and ?s3.0 = "\<lparr>tx_handler_attr = Some 1,
                        effects = [StartTrackingOrder ''sell-1'' ''ETH-USDC'' SELL ''2000.1'' ''1.23'',
                                   GetGatewayInstance,
                                   ExecuteTransaction 1 ''ethereum'' ''mainnet'' ''uniswap/amm''
                                     ''execute-swap''
                                     [(''walletAddress'', PyStr ''0xA1''),
                                      (''baseToken'', PyStr ''ETH''),
                                      (''quoteToken'', PyStr ''USDC''),
                                      (''amount'', PyFloat ''1.23''),
                                      (''side'', PyStr ''SELL'')]
                                     ''sell-1'']\<rparr>",
       THEN conjunct2, THEN conjunct1, rule_format,
       where e = "OtherException ''TimeoutError'' ''late''"]
  by (simp add: transaction_raising_def example_env_def init_def start_tracking_order_def
      tx_handler_def get_gateway_instance_def execute_transaction_def swap_params_def emit_def)

text \<open>
  The claim as written fails: a \<^verbatim>\<open>KeyboardInterrupt\<close> raised by the submission is an
  exception other than \<^verbatim>\<open>CancelledError\<close>; it leaves \<^verbatim>\<open>_create_order\<close>, and
  \<^verbatim>\<open>_handle_operation_failure\<close> is not called. And for an order whose trading pair
  has no separator, tracking is never started.
\<close>

theorem create_order_failure_handling_counterexample:
  "fst (execute_transaction (transaction_raising (OtherBaseException ''KeyboardInterrupt'' ''''))
          \<lparr>tx_handler_attr = Some 1,
             effects = [StartTrackingOrder ''sell-1'' ''ETH-USDC'' SELL ''2000.1'' ''1.23'',
                        GetGatewayInstance]\<rparr>
          1 ''ethereum'' ''mainnet'' ''uniswap/amm'' ''execute-swap''
          [(''walletAddress'', PyStr ''0xA1''),
           (''baseToken'', PyStr ''ETH''),
           (''quoteToken'', PyStr ''USDC''),
           (''amount'', PyFloat ''1.23''),
           (''side'', PyStr ''SELL'')]
          ''sell-1'') = Some (OtherBaseException ''KeyboardInterrupt'' '''')
   \<and> OtherBaseException ''KeyboardInterrupt'' '''' \<noteq> CancelledError
   \<and> create_order (transaction_raising (OtherBaseException ''KeyboardInterrupt'' '''')) init SELL
         ''sell-1'' ''ETH-USDC'' ''1.23456'' ''2000.12345'' =
       (Inl (OtherBaseException ''KeyboardInterrupt'' ''''),
        \<lparr>tx_handler_attr = Some 1,
           effects =
             [StartTrackingOrder ''sell-1'' ''ETH-USDC'' SELL ''2000.1'' ''1.23'',
              GetGatewayInstance,
              ExecuteTransaction 1 ''ethereum'' ''mainnet'' ''uniswap/amm'' ''execute-swap''
                [(''walletAddress'', PyStr ''0xA1''),
                 (''baseToken'', PyStr ''ETH''),
                 (''quoteToken'', PyStr ''USDC''),
                 (''amount'', PyFloat ''1.23''),
                 (''side'', PyStr ''SELL'')]
                ''sell-1'']\<rparr>)
   \<and> create_order example_env init SELL ''sell-2'' ''ETHUSDC'' ''1.23456'' ''2000.12345'' =
       (Inl (ValueError ''not enough values to unpack (expected 2, got 1)''), init)"
  by (simp add: transaction_raising_def example_env_def init_def create_order_def
      create_order_try_def start_tracking_order_def tx_handler_def get_gateway_instance_def
      execute_transaction_def swap_params_def emit_def Let_def)

subsection \<open>The transaction handler\<close>

lemma place_order_attr:
  "tx_handler_attr (snd (place_order E s is_buy trading_pair amount price)) = tx_handler_attr s"
  by (simp add: place_order_def create_market_order_id_def safe_ensure_future_def
      tx_handler_attr_emit)

lemma create_order_try_attr:
  assumes "tx_handler_attr s = Some h"
  shows "tx_handler_attr (snd (create_order_try E s trade_type order_id base quote amount)) = Some h"
proof -
  have h: "tx_handler E s = (h, s)"
    using assms by (rule tx_handler_Some)
  show ?thesis
  proof (cases "swap_params E base quote amount trade_type")
    case (Inl e)
    from create_order_try_no_params [OF h Inl, of order_id] assms show ?thesis
      by simp
  next
    case (Inr params)
    obtain outcome s3 where x: "execute_transaction E s h (self_chain E) (self_network E)
               (self_connector_name E) ''execute-swap'' params order_id = (outcome, s3)"
      by (cases "execute_transaction E s h (self_chain E) (self_network E)
               (self_connector_name E) ''execute-swap'' params order_id")
    have "tx_handler_attr s3 = Some h"
      using execute_transaction_effects [OF x] assms by simp
    with create_order_try_call [OF h Inr x] show ?thesis
      by (cases outcome) (simp_all add: logger_def tx_handler_attr_emit)
  qed
qed

lemma create_order_attr:
  assumes "tx_handler_attr s = Some h"
  shows "tx_handler_attr (snd (create_order E s trade_type order_id trading_pair amount price)) =
         Some h"
proof (cases "unpack2 (split CHR ''-'' trading_pair)")
  case (Inl e)
  with assms show ?thesis by (simp add: create_order_def)
next
  case (Inr bq)
  obtain base quote where bq: "unpack2 (split CHR ''-'' trading_pair) = Inr (base, quote)"
    using Inr by (cases bq) simp
  define s1 where "s1 = start_tracking_order s order_id trading_pair trade_type
                  (quantize_order_price E trading_pair price)
                  (quantize_order_amount E trading_pair amount)"
  have s1: "tx_handler_attr s1 = Some h"
    using assms by (simp add: s1_def start_tracking_order_def tx_handler_attr_emit)
  obtain r s' where t: "create_order_try E s1 trade_type order_id base quote
      (quantize_order_amount E trading_pair amount) = (r, s')"
    by (cases "create_order_try E s1 trade_type order_id base quote
      (quantize_order_amount E trading_pair amount)")
  have s': "tx_handler_attr s' = Some h"
    using create_order_try_attr [OF s1, of E trade_type order_id base quote
        "quantize_order_amount E trading_pair amount"] t by simp
  from create_order_unpacked [OF bq t [unfolded s1_def]] s' show ?thesis
    by (cases r) (simp_all add: handle_operation_failure_def tx_handler_attr_emit)
qed

lemma perform_attr:
  "tx_handler_attr s = Some h \<Longrightarrow> tx_handler_attr (perform E s c) = Some h"
  by (cases c)
     (simp_all add: tx_handler_Some get_order_price_def get_quote_price_attr parse_state(1)
        buy_def sell_def place_order_attr create_order_attr)

lemma perform_all_attr:
  "tx_handler_attr s = Some h \<Longrightarrow> tx_handler_attr (perform_all E s cs) = Some h"
  by (induction cs arbitrary: s) (simp_all add: perform_attr)

text \<open>
  Claim C10. An access to \<^verbatim>\<open>tx_handler\<close> while \<^verbatim>\<open>_tx_handler\<close> is \<^verbatim>\<open>None\<close> (the first
  one) calls \<^verbatim>\<open>_get_gateway_instance()\<close> once, stores its result in the field and
  returns it. After that, whatever methods of the class are called in between, an
  access returns the stored object and leaves the state as it is: there is no further
  call on its behalf. Once the field holds an object, no sequence of method calls
  changes it.
\<close>

theorem tx_handler_created_once:
  "(tx_handler_attr s = None \<longrightarrow>
      fst (tx_handler E s) = fst (get_gateway_instance E s)
      \<and> tx_handler_attr (snd (tx_handler E s)) = Some (fst (get_gateway_instance E s))
      \<and> effects (snd (tx_handler E s)) = effects s @ [GetGatewayInstance]
      \<and> tx_handler E (perform_all E (snd (tx_handler E s)) cs) =
          (fst (get_gateway_instance E s), perform_all E (snd (tx_handler E s)) cs))
   \<and> (tx_handler_attr s = Some h \<longrightarrow>
        tx_handler E s = (h, s)
        \<and> tx_handler_attr (perform_all E s cs) = Some h)"
proof -
  have first: "tx_handler_attr s = None \<longrightarrow>
      fst (tx_handler E s) = fst (get_gateway_instance E s)
      \<and> tx_handler_attr (snd (tx_handler E s)) = Some (fst (get_gateway_instance E s))
      \<and> effects (snd (tx_handler E s)) = effects s @ [GetGatewayInstance]"
    by (simp add: tx_handler_None get_gateway_instance_def effects_emit)
  have later: "tx_handler_attr s = None \<longrightarrow>
      tx_handler E (perform_all E (snd (tx_handler E s)) cs) =
          (fst (get_gateway_instance E s), perform_all E (snd (tx_handler E s)) cs)"
  proof
    assume "tx_handler_attr s = None"
    with first have "tx_handler_attr (snd (tx_handler E s)) = Some (fst (get_gateway_instance E s))"
      by simp
    then have "tx_handler_attr (perform_all E (snd (tx_handler E s)) cs) =
               Some (fst (get_gateway_instance E s))"
      by (rule perform_all_attr)
    then show "tx_handler E (perform_all E (snd (tx_handler E s)) cs) =
          (fst (get_gateway_instance E s), perform_all E (snd (tx_handler E s)) cs)"
      by (rule tx_handler_Some)
  qed
  have kept: "tx_handler_attr s = Some h \<longrightarrow>
        tx_handler E s = (h, s) \<and> tx_handler_attr (perform_all E s cs) = Some h"
    by (simp add: tx_handler_Some perform_all_attr)
  from first later kept show ?thesis by blast
qed

text \<open>
  On a fresh object the first access stores object 0. After a quote and an order, a
  call of \<^verbatim>\<open>_get_gateway_instance()\<close> would answer with another object, and the access
  still returns object 0.
\<close>

theorem tx_handler_created_once_witness:
  "tx_handler_attr (init :: (string, string, string, nat) GatewaySwap) = None
   \<and> tx_handler example_env init =
       (0, \<lparr>tx_handler_attr = Some 0, effects = [GetGatewayInstance]\<rparr>)
   \<and> fst (get_gateway_instance example_env
            (perform_all example_env (snd (tx_handler example_env init))
               [Call_get_quote_price ''ETH-USDC'' True ''1.0'' None None,
                Call_create_order BUY ''buy-1'' ''ETH-USDC'' ''1.23456'' ''2000.12345'',
                Call_buy ''ETH-USDC'' ''1.0'' () ''2000''])) = 8
   \<and> fst (tx_handler example_env
            (perform_all example_env (snd (tx_handler example_env init))
               [Call_get_quote_price ''ETH-USDC'' True ''1.0'' None None,
                Call_create_order BUY ''buy-1'' ''ETH-USDC'' ''1.23456'' ''2000.12345'',
                Call_buy ''ETH-USDC'' ''1.0'' () ''2000''])) = 0
   \<and> tx_handler_attr
         (perform_all example_env (snd (tx_handler example_env init))
            [Call_get_quote_price ''ETH-USDC'' True ''1.0'' None None,
             Call_create_order BUY ''buy-1'' ''ETH-USDC'' ''1.23456'' ''2000.12345'',
             Call_buy ''ETH-USDC'' ''1.0'' () ''2000'']) = Some 0"
  using tx_handler_created_once [of init example_env
        "[Call_get_quote_price ''ETH-USDC'' True ''1.0'' None None,
          Call_create_order BUY ''buy-1'' ''ETH-USDC'' ''1.23456'' ''2000.12345'',
          Call_buy ''ETH-USDC'' ''1.0'' () ''2000'']" 0]
    tx_handler_created_once [of "snd (tx_handler example_env init)" example_env
        "[Call_get_quote_price ''ETH-USDC'' True ''1.0'' None None,
          Call_create_order BUY ''buy-1'' ''ETH-USDC'' ''1.23456'' ''2000.12345'',
          Call_buy ''ETH-USDC'' ''1.0'' () ''2000'']" 0]
  by (simp add: example_env_def example_Decimal_def init_def tx_handler_def
      get_gateway_instance_def get_quote_price_def get_quote_price_try_def
      connector_request_def quote_request_payload_def parse_price_response_def
      dict_contains_def dict_keys_def dict_getitem_def create_order_def
      create_order_try_def
      start_tracking_order_def execute_transaction_def swap_params_def logger_def
      buy_def place_order_def create_market_order_id_def safe_ensure_future_def
      emit_def Let_def)

end
